theory Spec2Isabelle
  imports Complex_Main
begin

text \<open>
  A model of the checkout core of the multi-store backend: the reservation service
  (\<open>createReservation\<close>, \<open>updateReservation\<close>, \<open>cancelReservation\<close>), the cart validation
  of the cart service, and \<open>createOrder\<close> of the order service with its idempotency
  records, its transaction and its compensation. The database is a record of tables passed
  from call to call; a thrown error is a value. The expiry sweep, order cancellation and
  the read-only queries are not modelled.
\<close>

section \<open>Data model (the relational tables the services read and write)\<close>

text \<open>
  The enums of the schema. Constructors carry a one-letter prefix because several enums
  share value names (\<open>pending\<close>, \<open>completed\<close>, \<open>cancelled\<close>, \<open>failed\<close>).
\<close>

datatype ReservationStatus = R_reserved | R_used | R_released | R_expired | R_cancelled

datatype IdempotencyStatus = I_in_progress | I_completed | I_failed

datatype OrderStatus = O_pending | O_confirmed | O_preparing | O_ready | O_completed | O_cancelled

datatype PaymentStatus = P_pending | P_paid | P_failed | P_refunded

datatype DeliveryType = pickup | delivery

text \<open>
  Primary keys are generated by the database; they are modelled as naturals drawn from a
  counter (\<open>nextId\<close>). Store, product and user identifiers come from the caller and stay
  strings. Timestamps are milliseconds; the \<open>createdAt\<close>/\<open>updatedAt\<close> columns, which no
  modelled operation reads, are left out.

  A row of \<open>store_inventory\<close>; the table is keyed by its unique index (storeId, productId).
\<close>

record store_inventory =
  quantityAvailable :: int
  reservedQuantity :: int
  isAvailable :: bool

record inventory_reservation =
  res_id :: nat
  res_storeId :: string
  res_productId :: string
  res_quantity :: int
  res_userId :: "string option"
  res_orderId :: "nat option"
  res_status :: ReservationStatus
  res_expiresAt :: int

text \<open>
  Money: the services compute with JavaScript numbers and store into DECIMAL columns.
  The checkout model does not depend on that arithmetic: there the money type is the type
  parameter \<open>'m\<close> and the places that compute with it are parameters of the model (see
  \<open>env\<close> below). The arithmetic of \<open>calculateCartTotals\<close> is modelled on its own, in
  doubles, after the order service.
\<close>

record shopping_cart =
  sc_id :: nat
  sc_userId :: string
  sc_storeId :: string
  sc_isActive :: bool

record 'm cart_item =
  ci_id :: nat
  ci_cartId :: nat
  ci_productId :: string
  ci_quantity :: int
  ci_priceAtTime :: 'm

record 'm cart_totals =
  t_subtotal :: 'm
  t_tax :: 'm
  t_deliveryFee :: 'm
  t_discount :: 'm
  t_total :: 'm

record 'm order_row =
  o_id :: nat
  o_orderNumber :: string
  o_userId :: string
  o_storeId :: string
  o_status :: OrderStatus
  o_totalAmount :: 'm
  o_taxAmount :: 'm
  o_deliveryFee :: 'm
  o_discountAmount :: 'm
  o_paymentMethod :: "string option"
  o_paymentStatus :: PaymentStatus
  o_deliveryType :: "DeliveryType option"
  o_deliveryAddress :: "string option"
  o_specialInstructions :: "string option"

record 'm order_item =
  oi_id :: nat
  oi_orderId :: nat
  oi_productId :: string
  oi_productName :: string
  oi_quantity :: int
  oi_unitPrice :: 'm
  oi_totalPrice :: 'm
  oi_specialInstructions :: "string option"

record store_row =
  st_name :: string
  st_address :: "string option"
  st_phone :: "string option"

text \<open>The reasons \<open>validateCartForCheckout\<close> pushes onto its \<open>errors\<close> array.\<close>

datatype cart_problem =
    Cart_is_empty
  | No_longer_available string
  | Currently_unavailable string
  | Only_of_available int string int

text \<open>Every \<open>throw new Error(...)\<close> of the modelled services, and the storage layer's
  failure of an \<open>update\<close> whose row does not exist.\<close>

datatype error =
    Product_not_available
  | Only_items_available int int
  | Reservation_not_found
  | Reservation_cannot_be_cancelled
  | Record_to_update_not_found
  | Unique_constraint_failed
  | Order_already_being_processed
  | Cart_validation_failed "cart_problem list"
  | Cart_is_empty_error
  | Payment_failed "string option"

text \<open>
  The JSON stored in an idempotency row's \<open>response\<close> column: the transaction's result
  \<open>{order, items}\<close> on success, \<open>{error: message}\<close> on failure (the message is a function of
  the error, so the error itself is kept).
\<close>

datatype 'm response = Response_result "'m order_row" "'m order_item list" | Response_error error

text \<open>A row of \<open>idempotency_keys\<close>; the table is keyed by its unique index (key, userId).\<close>

record 'm idempotency_key =
  ik_id :: nat
  ik_status :: IdempotencyStatus
  ik_requestHash :: "string option"
  ik_response :: "'m response option"

record 'm db =
  storeInventory :: "string \<times> string \<rightharpoonup> store_inventory"
  inventoryReservation :: "inventory_reservation list"
  idempotencyKey :: "string \<times> string \<rightharpoonup> 'm idempotency_key"
  order_tbl :: "'m order_row list"
  orderItem :: "'m order_item list"
  shoppingCart :: "shopping_cart list"
  cartItem :: "'m cart_item list"
  store_tbl :: "string \<rightharpoonup> store_row"
  nextId :: nat

section \<open>ReservationService (reservation.service.ts)\<close>

text \<open>The parsed input of \<open>createReservation\<close> (\<open>createReservationSchema\<close>).\<close>

record reservation_request =
  rq_storeId :: string
  rq_productId :: string
  rq_quantity :: int
  rq_userId :: "string option"
  rq_orderId :: "nat option"
  rq_ttlMinutes :: int

text \<open>\<open>prisma.storeInventory.findFirst({where: {storeId, productId, isAvailable: true}})\<close>\<close>

definition findAvailableInventory :: "'m db \<Rightarrow> string \<Rightarrow> string \<Rightarrow> store_inventory option" where
  "findAvailableInventory d sid pid =
     (case storeInventory d (sid, pid) of
        None \<Rightarrow> None
      | Some row \<Rightarrow> if isAvailable row then Some row else None)"

text \<open>\<open>prisma.inventoryReservation.create\<close> with status \<open>reserved\<close>; \<open>ttlMinutes || defaultTTLMinutes\<close>.
  The source sets the expiry with \<open>setMinutes(getMinutes() + ttl)\<close> on the local wall clock;
  the model adds \<open>ttl * 60000\<close> milliseconds, which is the same instant except across a
  change of the local clock (daylight saving).\<close>

definition newReservation :: "int \<Rightarrow> int \<Rightarrow> nat \<Rightarrow> reservation_request \<Rightarrow> inventory_reservation" where
  "newReservation now defaultTTLMinutes i req =
     \<lparr> res_id = i, res_storeId = rq_storeId req, res_productId = rq_productId req,
       res_quantity = rq_quantity req, res_userId = rq_userId req, res_orderId = rq_orderId req,
       res_status = R_reserved,
       res_expiresAt = now + (if rq_ttlMinutes req = 0 then defaultTTLMinutes else rq_ttlMinutes req) * 60000 \<rparr>"

definition insertReservation :: "'m db \<Rightarrow> inventory_reservation \<Rightarrow> 'm db" where
  "insertReservation d r =
     d\<lparr> inventoryReservation := inventoryReservation d @ [r], nextId := Suc (nextId d) \<rparr>"

text \<open>\<open>prisma.storeInventory.update({where: {storeId_productId}, data: {reservedQuantity:
  {increment: n}}})\<close>; a decrement is an increment by \<open>- n\<close>. The update fails when the row
  does not exist. The column is a 32-bit INTEGER and the model counts in unbounded integers:
  the error the database raises for a value beyond \<open>2 ^ 31 - 1\<close> is outside the model.\<close>

definition incrementReserved :: "'m db \<Rightarrow> string \<Rightarrow> string \<Rightarrow> int \<Rightarrow> 'm db \<times> (error + unit)" where
  "incrementReserved d sid pid n =
     (case storeInventory d (sid, pid) of
        None \<Rightarrow> (d, Inl Record_to_update_not_found)
      | Some row \<Rightarrow>
          (d\<lparr> storeInventory :=
                (storeInventory d)((sid, pid) \<mapsto> row\<lparr> reservedQuantity := reservedQuantity row + n \<rparr>) \<rparr>,
           Inr ()))"

text \<open>\<open>createReservation\<close>, run without interruption from its first line to its return.\<close>

definition createReservation ::
  "int \<Rightarrow> int \<Rightarrow> 'm db \<Rightarrow> reservation_request \<Rightarrow> 'm db \<times> (error + inventory_reservation)" where
  "createReservation now defaultTTLMinutes d req =
     (case findAvailableInventory d (rq_storeId req) (rq_productId req) of
        None \<Rightarrow> (d, Inl Product_not_available)
      | Some inventory \<Rightarrow>
          let availableQuantity = quantityAvailable inventory - reservedQuantity inventory in
          if availableQuantity < rq_quantity req
          then (d, Inl (Only_items_available availableQuantity (rq_quantity req)))
          else
            let reservation = newReservation now defaultTTLMinutes (nextId d) req;
                d1 = insertReservation d reservation
            in (case incrementReserved d1 (rq_storeId req) (rq_productId req) (rq_quantity req) of
                  (d2, Inl e) \<Rightarrow> (d2, Inl e)
                | (d2, Inr _) \<Rightarrow> (d2, Inr reservation)))"

text \<open>\<open>releaseReservedQuantity\<close>: an unconditional decrement of the counter.\<close>

definition releaseReservedQuantity :: "'m db \<Rightarrow> string \<Rightarrow> string \<Rightarrow> int \<Rightarrow> 'm db \<times> (error + unit)" where
  "releaseReservedQuantity d sid pid quantity = incrementReserved d sid pid (- quantity)"

definition findReservation :: "'m db \<Rightarrow> nat \<Rightarrow> inventory_reservation option" where
  "findReservation d rid = find (\<lambda>r. res_id r = rid) (inventoryReservation d)"

text \<open>\<open>prisma.inventoryReservation.update({where: {id}, data: {status, orderId}})\<close>\<close>

definition setReservation :: "'m db \<Rightarrow> nat \<Rightarrow> ReservationStatus \<Rightarrow> nat option \<Rightarrow> 'm db" where
  "setReservation d rid status oid =
     d\<lparr> inventoryReservation :=
          map (\<lambda>r. if res_id r = rid then r\<lparr> res_status := status, res_orderId := oid \<rparr> else r)
              (inventoryReservation d) \<rparr>"

text \<open>\<open>updateReservation\<close>: the row is written first, then the counter is decremented when
  the new status is \<open>used\<close>, \<open>released\<close> or \<open>expired\<close>. The current status is not read.\<close>

definition updateReservation ::
  "'m db \<Rightarrow> nat \<Rightarrow> ReservationStatus \<Rightarrow> nat option \<Rightarrow> 'm db \<times> (error + inventory_reservation)" where
  "updateReservation d reservationId status orderId =
     (case findReservation d reservationId of
        None \<Rightarrow> (d, Inl Reservation_not_found)
      | Some reservation \<Rightarrow>
          let oid = (case orderId of Some x \<Rightarrow> Some x | None \<Rightarrow> res_orderId reservation);
              updatedReservation = reservation\<lparr> res_status := status, res_orderId := oid \<rparr>;
              d1 = setReservation d reservationId status oid
          in if status = R_used \<or> status = R_released \<or> status = R_expired
             then (case releaseReservedQuantity d1 (res_storeId reservation)
                          (res_productId reservation) (res_quantity reservation) of
                     (d2, Inl e) \<Rightarrow> (d2, Inl e)
                   | (d2, Inr _) \<Rightarrow> (d2, Inr updatedReservation))
             else (d1, Inr updatedReservation))"

text \<open>\<open>cancelReservation\<close>: rejects any reservation that is not \<open>reserved\<close>.\<close>

definition cancelReservation :: "'m db \<Rightarrow> nat \<Rightarrow> 'm db \<times> (error + inventory_reservation)" where
  "cancelReservation d reservationId =
     (case findReservation d reservationId of
        None \<Rightarrow> (d, Inl Reservation_not_found)
      | Some reservation \<Rightarrow>
          if res_status reservation \<noteq> R_reserved then (d, Inl Reservation_cannot_be_cancelled)
          else
            let updatedReservation = reservation\<lparr> res_status := R_cancelled \<rparr>;
                d1 = setReservation d reservationId R_cancelled (res_orderId reservation)
            in (case releaseReservedQuantity d1 (res_storeId reservation)
                         (res_productId reservation) (res_quantity reservation) of
                  (d2, Inl e) \<Rightarrow> (d2, Inl e)
                | (d2, Inr _) \<Rightarrow> (d2, Inr updatedReservation)))"

subsection \<open>createReservation as the storage operations it awaits\<close>

text \<open>
  \<open>createReservation\<close> awaits three storage operations in turn: the \<open>findFirst\<close> (the
  availability check is made on the row it returned), the \<open>create\<close> of the reservation and
  the \<open>update\<close> that increments the counter. Between two of them another call may run. A
  task is a call suspended at one of these points; \<open>cr_step\<close> runs it to the next one.
\<close>

datatype task =
    T_start reservation_request
  | T_checked reservation_request
  | T_created reservation_request inventory_reservation
  | T_done "error + inventory_reservation"

fun cr_step :: "int \<Rightarrow> int \<Rightarrow> 'm db \<Rightarrow> task \<Rightarrow> 'm db \<times> task" where
  "cr_step now defaultTTLMinutes d (T_start req) =
     (case findAvailableInventory d (rq_storeId req) (rq_productId req) of
        None \<Rightarrow> (d, T_done (Inl Product_not_available))
      | Some inventory \<Rightarrow>
          let availableQuantity = quantityAvailable inventory - reservedQuantity inventory in
          if availableQuantity < rq_quantity req
          then (d, T_done (Inl (Only_items_available availableQuantity (rq_quantity req))))
          else (d, T_checked req))"
| "cr_step now defaultTTLMinutes d (T_checked req) =
     (let reservation = newReservation now defaultTTLMinutes (nextId d) req
      in (insertReservation d reservation, T_created req reservation))"
| "cr_step now defaultTTLMinutes d (T_created req reservation) =
     (case incrementReserved d (rq_storeId req) (rq_productId req) (rq_quantity req) of
        (d2, Inl e) \<Rightarrow> (d2, T_done (Inl e))
      | (d2, Inr _) \<Rightarrow> (d2, T_done (Inr reservation)))"
| "cr_step now defaultTTLMinutes d (T_done r) = (d, T_done r)"

text \<open>A schedule names, step by step, which of the pending calls runs next.\<close>

fun run_schedule :: "int \<Rightarrow> int \<Rightarrow> 'm db \<Rightarrow> task list \<Rightarrow> nat list \<Rightarrow> 'm db \<times> task list" where
  "run_schedule now defaultTTLMinutes d ts [] = (d, ts)"
| "run_schedule now defaultTTLMinutes d ts (i # sched) =
     (if i < length ts
      then (case cr_step now defaultTTLMinutes d (ts ! i) of
              (d', t') \<Rightarrow> run_schedule now defaultTTLMinutes d' (ts[i := t']) sched)
      else run_schedule now defaultTTLMinutes d ts sched)"

text \<open>The quantity a finished call was granted (nothing when it failed or is still pending).\<close>

fun granted :: "error + inventory_reservation \<Rightarrow> int" where
  "granted (Inr r) = res_quantity r"
| "granted (Inl e) = 0"

fun task_granted :: "task \<Rightarrow> int" where
  "task_granted (T_done r) = granted r"
| "task_granted t = 0"

text \<open>Calls made one after another, each returning before the next begins.\<close>

fun reserve_in_turn ::
  "int \<Rightarrow> int \<Rightarrow> 'm db \<Rightarrow> reservation_request list \<Rightarrow> 'm db \<times> (error + inventory_reservation) list" where
  "reserve_in_turn now defaultTTLMinutes d [] = (d, [])"
| "reserve_in_turn now defaultTTLMinutes d (req # reqs) =
     (case createReservation now defaultTTLMinutes d req of
        (d1, r) \<Rightarrow>
          (case reserve_in_turn now defaultTTLMinutes d1 reqs of
             (d2, rs) \<Rightarrow> (d2, r # rs)))"

section \<open>The collaborators of checkout\<close>

text \<open>The parsed body of a checkout request (\<open>createOrderSchema\<close>); the delivery address
  is stored as given and never inspected, so it is carried as its JSON text.\<close>

record order_request =
  co_storeId :: string
  co_deliveryType :: DeliveryType
  co_deliveryAddress :: "string option"
  co_specialInstructions :: "string option"
  co_paymentMethod :: string
  co_idempotencyKey :: "string option"

record 'm payment_request =
  pay_amount :: 'm
  pay_paymentMethod :: string
  pay_orderId :: nat
  pay_userId :: string

record payment_result =
  pr_success :: bool
  pr_error :: "string option"

text \<open>
  What one call of \<open>createOrder\<close> takes from outside the database: the UUID that
  \<open>crypto.randomUUID()\<close> returns, the SHA-256 of the request's JSON, the clock, the
  successive candidates \<open>generateOrderNumber\<close> draws, the catalogue's product names (absent
  when the lookup fails), the payment provider's answer, and the two computations on money
  (\<open>calculateCartTotals\<close> and \<open>Number(priceAtTime) * quantity\<close>).
\<close>

record 'm env =
  randomUUID :: string
  sha256_json :: "order_request \<Rightarrow> string"
  date_now :: int
  draws :: "string list"
  productName :: "string \<Rightarrow> string option"
  processPayment :: "'m payment_request \<Rightarrow> payment_result"
  calculateCartTotals :: "'m cart_item list \<Rightarrow> 'm cart_totals"
  lineTotal :: "'m \<Rightarrow> int \<Rightarrow> 'm"

section \<open>CartService (cart.service.ts)\<close>

record 'm cart_with_items =
  cw_id :: nat
  cw_items :: "('m cart_item \<times> string option) list"
  cw_totals :: "'m cart_totals"

text \<open>\<open>getCartWithItems\<close>: the user's active cart at the store, its items in creation order,
  each with the product fetched from the catalogue, and the totals.\<close>

definition getCartWithItems :: "'m env \<Rightarrow> 'm db \<Rightarrow> string \<Rightarrow> string \<Rightarrow> 'm cart_with_items option" where
  "getCartWithItems env d userId storeId =
     (case find (\<lambda>c. sc_userId c = userId \<and> sc_storeId c = storeId \<and> sc_isActive c) (shoppingCart d) of
        None \<Rightarrow> None
      | Some cart \<Rightarrow>
          let items = filter (\<lambda>i. ci_cartId i = sc_id cart) (cartItem d) in
          Some \<lparr> cw_id = sc_id cart,
                 cw_items = map (\<lambda>i. (i, productName env (ci_productId i))) items,
                 cw_totals = calculateCartTotals env items \<rparr>)"

text \<open>The body of the loop of \<open>validateCartForCheckout\<close>: what one item adds to \<open>errors\<close>.\<close>

definition checkItem :: "'m db \<Rightarrow> string \<Rightarrow> 'm cart_item \<Rightarrow> cart_problem list" where
  "checkItem d storeId item =
     (case storeInventory d (storeId, ci_productId item) of
        None \<Rightarrow> [No_longer_available (ci_productId item)]
      | Some inventory \<Rightarrow>
          if \<not> isAvailable inventory then [Currently_unavailable (ci_productId item)]
          else if quantityAvailable inventory < ci_quantity item
          then [Only_of_available (quantityAvailable inventory) (ci_productId item) (ci_quantity item)]
          else [])"

text \<open>\<open>validateCartForCheckout\<close> returns \<open>{valid, errors}\<close>; it only reads.\<close>

definition validateCartForCheckout ::
  "'m env \<Rightarrow> 'm db \<Rightarrow> string \<Rightarrow> string \<Rightarrow> bool \<times> cart_problem list" where
  "validateCartForCheckout env d userId storeId =
     (case getCartWithItems env d userId storeId of
        None \<Rightarrow> (False, [Cart_is_empty])
      | Some cart \<Rightarrow>
          if cw_items cart = [] then (False, [Cart_is_empty])
          else
            let errors = concat (map (\<lambda>(item, p). checkItem d storeId item) (cw_items cart))
            in (errors = [], errors))"

section \<open>OrderService (order.service.ts)\<close>

record 'm order_with_items =
  owi_order :: "'m order_row"
  owi_items :: "'m order_item list"
  owi_store :: "(string \<times> string \<times> string) option"

text \<open>
  What \<open>createOrder\<close> hands back: the order read back by \<open>getOrderById\<close> (the value may be
  null: the non-null assertion is erased at run time), or, on the replay path, the stored
  \<open>response\<close> column cast to the return type.
\<close>

datatype 'm returned = Order_details "'m order_with_items option" | Replayed "'m response option"

text \<open>\<open>idempotencyKey || crypto.randomUUID()\<close>: an absent or empty key is replaced.\<close>

definition keyOf :: "'m env \<Rightarrow> order_request \<Rightarrow> string" where
  "keyOf env data =
     (case co_idempotencyKey data of
        None \<Rightarrow> randomUUID env
      | Some k \<Rightarrow> if k = [] then randomUUID env else k)"

text \<open>\<open>getOrderById\<close>: the order with its items and the store's name, address and phone
  (\<open>address || ''\<close>, \<open>phone || ''\<close>).\<close>

definition getOrderById :: "'m db \<Rightarrow> nat \<Rightarrow> 'm order_with_items option" where
  "getOrderById d orderId =
     (case find (\<lambda>ord. o_id ord = orderId) (order_tbl d) of
        None \<Rightarrow> None
      | Some ord \<Rightarrow>
          Some \<lparr> owi_order = ord,
                 owi_items = filter (\<lambda>it. oi_orderId it = o_id ord) (orderItem d),
                 owi_store =
                   (case store_tbl d (o_storeId ord) of
                      None \<Rightarrow> None
                    | Some st \<Rightarrow>
                        Some (st_name st,
                              (case st_address st of None \<Rightarrow> [] | Some a \<Rightarrow> a),
                              (case st_phone st of None \<Rightarrow> [] | Some ph \<Rightarrow> ph))) \<rparr>)"

text \<open>\<open>generateOrderNumber\<close>: draw a candidate, look it up, draw again on a collision. The
  draws come from the environment; when they are exhausted the model gives no answer.\<close>

fun generateOrderNumber :: "'m db \<Rightarrow> string list \<Rightarrow> string option" where
  "generateOrderNumber d [] = None"
| "generateOrderNumber d (orderNumber # later) =
     (case find (\<lambda>ord. o_orderNumber ord = orderNumber) (order_tbl d) of
        Some existing \<Rightarrow> generateOrderNumber d later
      | None \<Rightarrow> Some orderNumber)"

text \<open>The first loop of the transaction: for every cart item a reservation row is created
  and the counter incremented. No availability is read here.\<close>

fun reserveItems ::
  "int \<Rightarrow> string \<Rightarrow> string \<Rightarrow> 'm db \<Rightarrow> ('m cart_item \<times> string option) list
     \<Rightarrow> 'm db \<times> (error + inventory_reservation list)" where
  "reserveItems now userId storeId t [] = (t, Inr [])"
| "reserveItems now userId storeId t ((item, p) # rest) =
     (let reservation =
            \<lparr> res_id = nextId t, res_storeId = storeId, res_productId = ci_productId item,
              res_quantity = ci_quantity item, res_userId = Some userId, res_orderId = None,
              res_status = R_reserved, res_expiresAt = now + 15 * 60 * 1000 \<rparr>;
          t1 = insertReservation t reservation
      in (case incrementReserved t1 storeId (ci_productId item) (ci_quantity item) of
            (t2, Inl e) \<Rightarrow> (t2, Inl e)
          | (t2, Inr _) \<Rightarrow>
              (case reserveItems now userId storeId t2 rest of
                 (t3, Inl e) \<Rightarrow> (t3, Inl e)
               | (t3, Inr reservations) \<Rightarrow> (t3, Inr (reservation # reservations)))))"

text \<open>\<open>item.product?.attributes?.name || `Product ${item.productId}`\<close>\<close>

definition itemName :: "'m cart_item \<times> string option \<Rightarrow> string" where
  "itemName ip =
     (case snd ip of
        None \<Rightarrow> ''Product '' @ ci_productId (fst ip)
      | Some n \<Rightarrow> if n = [] then ''Product '' @ ci_productId (fst ip) else n)"

fun createOrderItems ::
  "'m env \<Rightarrow> nat \<Rightarrow> 'm db \<Rightarrow> ('m cart_item \<times> string option) list \<Rightarrow> 'm db \<times> 'm order_item list" where
  "createOrderItems env orderId t [] = (t, [])"
| "createOrderItems env orderId t (ip # rest) =
     (let it = \<lparr> oi_id = nextId t, oi_orderId = orderId, oi_productId = ci_productId (fst ip),
                  oi_productName = itemName ip, oi_quantity = ci_quantity (fst ip),
                  oi_unitPrice = ci_priceAtTime (fst ip),
                  oi_totalPrice = lineTotal env (ci_priceAtTime (fst ip)) (ci_quantity (fst ip)),
                  oi_specialInstructions = None \<rparr>;
          t1 = t\<lparr> orderItem := orderItem t @ [it], nextId := Suc (nextId t) \<rparr>
      in (case createOrderItems env orderId t1 rest of (t2, its) \<Rightarrow> (t2, it # its)))"

text \<open>\<open>tx.inventoryReservation.updateMany({where: {id: {in: ids}}, data: {status: 'used',
  orderId}})\<close>: only reservation rows are written.\<close>

definition markUsed :: "nat list \<Rightarrow> nat \<Rightarrow> 'm db \<Rightarrow> 'm db" where
  "markUsed ids orderId t =
     t\<lparr> inventoryReservation :=
          map (\<lambda>r. if res_id r \<in> set ids then r\<lparr> res_status := R_used, res_orderId := Some orderId \<rparr> else r)
              (inventoryReservation t) \<rparr>"

text \<open>\<open>tx.order.create\<close>: the order row, \<open>pending\<close> with payment \<open>pending\<close>.\<close>

definition newOrder ::
  "nat \<Rightarrow> string \<Rightarrow> string \<Rightarrow> order_request \<Rightarrow> 'm cart_with_items \<Rightarrow> 'm order_row" where
  "newOrder i orderNumber userId data cart =
     \<lparr> o_id = i, o_orderNumber = orderNumber, o_userId = userId,
       o_storeId = co_storeId data, o_status = O_pending,
       o_totalAmount = t_total (cw_totals cart),
       o_taxAmount = t_tax (cw_totals cart),
       o_deliveryFee = t_deliveryFee (cw_totals cart),
       o_discountAmount = t_discount (cw_totals cart),
       o_paymentMethod = Some (co_paymentMethod data),
       o_paymentStatus = P_pending,
       o_deliveryType = Some (co_deliveryType data),
       o_deliveryAddress = co_deliveryAddress data,
       o_specialInstructions = co_specialInstructions data \<rparr>"

definition insertOrder :: "'m db \<Rightarrow> 'm order_row \<Rightarrow> 'm db" where
  "insertOrder t ord = t\<lparr> order_tbl := order_tbl t @ [ord], nextId := Suc (nextId t) \<rparr>"

text \<open>\<open>tx.order.update({where: {id}, data: {paymentStatus: success ? 'paid' : 'failed',
  status: success ? 'confirmed' : 'pending'}})\<close>\<close>

definition recordPayment :: "bool \<Rightarrow> nat \<Rightarrow> 'm db \<Rightarrow> 'm db" where
  "recordPayment success orderId t =
     t\<lparr> order_tbl :=
          map (\<lambda>x. if o_id x = orderId
                    then x\<lparr> o_paymentStatus := (if success then P_paid else P_failed),
                             o_status := (if success then O_confirmed else O_pending) \<rparr>
                    else x)
              (order_tbl t) \<rparr>"

text \<open>\<open>tx.cartItem.deleteMany({where: {cartId}})\<close>\<close>

definition clearCartItems :: "nat \<Rightarrow> 'm db \<Rightarrow> 'm db" where
  "clearCartItems cartId t = t\<lparr> cartItem := filter (\<lambda>i. ci_cartId i \<noteq> cartId) (cartItem t) \<rparr>"

text \<open>
  The callback given to \<open>prisma.$transaction\<close>, run on the state \<open>t\<close>. It yields the state it
  reached, the payment requests it sent, and either the error it threw or the value it
  returned: the order \<^emph>\<open>as inserted\<close> (status and payment status \<open>pending\<close>) with its items.
  \<open>generateOrderNumber\<close> reads through the global client, that is, the state the
  transaction started from.
\<close>

definition checkoutTransaction ::
  "'m env \<Rightarrow> 'm db \<Rightarrow> string \<Rightarrow> order_request \<Rightarrow> 'm cart_with_items
     \<Rightarrow> ('m db \<times> 'm payment_request list \<times> (error + 'm order_row \<times> 'm order_item list)) option" where
  "checkoutTransaction env t userId data cart =
     (case reserveItems (date_now env) userId (co_storeId data) t (cw_items cart) of
        (t1, Inl e) \<Rightarrow> Some (t1, [], Inl e)
      | (t1, Inr reservations) \<Rightarrow>
          (case generateOrderNumber t (draws env) of
             None \<Rightarrow> None
           | Some orderNumber \<Rightarrow>
               let ord = newOrder (nextId t1) orderNumber userId data cart;
                   t2 = insertOrder t1 ord
               in (case createOrderItems env (o_id ord) t2 (cw_items cart) of
                     (t3, orderItems) \<Rightarrow>
                       let request = \<lparr> pay_amount = t_total (cw_totals cart),
                                        pay_paymentMethod = co_paymentMethod data,
                                        pay_orderId = o_id ord, pay_userId = userId \<rparr>;
                           paymentResult = processPayment env request
                       in if \<not> pr_success paymentResult
                          then Some (t3, [request], Inl (Payment_failed (pr_error paymentResult)))
                          else
                            let t4 = recordPayment (pr_success paymentResult) (o_id ord) t3;
                                t5 = (if pr_success paymentResult
                                      then markUsed (map res_id reservations) (o_id ord) t4 else t4);
                                t6 = clearCartItems (cw_id cart) t5
                            in Some (t6, [request], Inr (ord, orderItems)))))"

text \<open>
  The \<open>try\<close> block up to the end of the transaction. The writes of a callback that throws
  are rolled back (the state at the start of the transaction stands); the payment requests
  it sent are not undone.
\<close>

definition attempt ::
  "'m env \<Rightarrow> 'm db \<Rightarrow> string \<Rightarrow> order_request
     \<Rightarrow> ('m db \<times> 'm payment_request list \<times> (error + 'm order_row \<times> 'm order_item list)) option" where
  "attempt env d userId data =
     (let cartValidation = validateCartForCheckout env d userId (co_storeId data) in
      if \<not> fst cartValidation
      then Some (d, [], Inl (Cart_validation_failed (snd cartValidation)))
      else
        (case getCartWithItems env d userId (co_storeId data) of
           None \<Rightarrow> Some (d, [], Inl Cart_is_empty_error)
         | Some cart \<Rightarrow>
             if cw_items cart = [] then Some (d, [], Inl Cart_is_empty_error)
             else
               (case checkoutTransaction env d userId data cart of
                  None \<Rightarrow> None
                | Some (t, charges, Inl e) \<Rightarrow> Some (d, charges, Inl e)
                | Some (t, charges, Inr result) \<Rightarrow> Some (t, charges, Inr result))))"

text \<open>\<open>releaseReservationsForFailedOrder\<close>: every reservation of the user at the store that
  is \<open>reserved\<close> and has no order is passed to \<open>updateReservation\<close> with status \<open>released\<close>.\<close>

fun releaseEach :: "'m db \<Rightarrow> inventory_reservation list \<Rightarrow> 'm db \<times> (error + unit)" where
  "releaseEach d [] = (d, Inr ())"
| "releaseEach d (reservation # rest) =
     (case updateReservation d (res_id reservation) R_released None of
        (d1, Inl e) \<Rightarrow> (d1, Inl e)
      | (d1, Inr _) \<Rightarrow> releaseEach d1 rest)"

definition releaseReservationsForFailedOrder :: "'m db \<Rightarrow> string \<Rightarrow> string \<Rightarrow> 'm db \<times> (error + unit)" where
  "releaseReservationsForFailedOrder d userId storeId =
     releaseEach d
       (filter (\<lambda>r. res_userId r = Some userId \<and> res_storeId r = storeId
                     \<and> res_status r = R_reserved \<and> res_orderId r = None)
               (inventoryReservation d))"

text \<open>\<open>prisma.idempotencyKey.update({where: {id}, data: {status, response}})\<close> on the row
  this call created.\<close>

definition finishIdempotency ::
  "'m db \<Rightarrow> string \<times> string \<Rightarrow> 'm idempotency_key \<Rightarrow> IdempotencyStatus \<Rightarrow> 'm response \<Rightarrow> 'm db" where
  "finishIdempotency d k idempotencyRecord status resp =
     d\<lparr> idempotencyKey :=
          (idempotencyKey d)(k \<mapsto> idempotencyRecord\<lparr> ik_status := status, ik_response := Some resp \<rparr>) \<rparr>"

text \<open>\<open>createOrder\<close> from the creation of the idempotency row on (the state \<open>d\<close> holds no
  row for the key any more).\<close>

definition proceed ::
  "'m env \<Rightarrow> 'm db \<Rightarrow> string \<Rightarrow> order_request
     \<Rightarrow> ('m db \<times> 'm payment_request list \<times> (error + 'm returned)) option" where
  "proceed env d userId data =
     (let k = (keyOf env data, userId);
          idempotencyRecord = \<lparr> ik_id = nextId d, ik_status = I_in_progress,
                                ik_requestHash = Some (sha256_json env data), ik_response = None \<rparr>;
          d1 = d\<lparr> idempotencyKey := (idempotencyKey d)(k \<mapsto> idempotencyRecord),
                  nextId := Suc (nextId d) \<rparr>
      in (case attempt env d1 userId data of
            None \<Rightarrow> None
          | Some (d2, charges, Inr result) \<Rightarrow>
              let d3 = finishIdempotency d2 k idempotencyRecord I_completed
                         (Response_result (fst result) (snd result))
              in Some (d3, charges, Inr (Order_details (getOrderById d3 (o_id (fst result)))))
          | Some (d2, charges, Inl e) \<Rightarrow>
              let d3 = finishIdempotency d2 k idempotencyRecord I_failed (Response_error e)
              in (case releaseReservationsForFailedOrder d3 userId (co_storeId data) of
                    (d4, Inl e') \<Rightarrow> Some (d4, charges, Inl e')
                  | (d4, Inr _) \<Rightarrow> Some (d4, charges, Inl e))))"

text \<open>
  \<open>createOrder\<close>. The result is the database afterwards, the payment requests sent, and the
  error thrown or the value returned; \<open>None\<close> only when the order-number draws ran out.
  A row whose status is none of the three would make the \<open>create\<close> violate the unique index.
\<close>

definition createOrder ::
  "'m env \<Rightarrow> 'm db \<Rightarrow> string \<Rightarrow> order_request
     \<Rightarrow> ('m db \<times> 'm payment_request list \<times> (error + 'm returned)) option" where
  "createOrder env d userId data =
     (case idempotencyKey d (keyOf env data, userId) of
        None \<Rightarrow> proceed env d userId data
      | Some existingKey \<Rightarrow>
          if ik_status existingKey = I_completed
          then Some (d, [], Inr (Replayed (ik_response existingKey)))
          else if ik_status existingKey = I_in_progress
          then Some (d, [], Inl Order_already_being_processed)
          else if ik_status existingKey = I_failed
          then proceed env
                 (d\<lparr> idempotencyKey := (idempotencyKey d)((keyOf env data, userId) := None) \<rparr>)
                 userId data
          else Some (d, [], Inl Unique_constraint_failed))"

section \<open>The arithmetic of calculateCartTotals (cart.service.ts)\<close>

text \<open>
  \<open>calculateCartTotals\<close> computes with JavaScript numbers, which are IEEE 754 double-precision
  values. A finite double is modelled as the real number it denotes (the sign of zero is
  dropped). \<open>fl x\<close> is the double nearest to the real \<open>x\<close>: a 53-bit significand, ties to the
  even significand, and the fixed exponent \<open>- 1074\<close> in the subnormal range.

  \<open>bitlength n\<close> is the number of binary digits of \<open>n\<close>, and \<open>ilog2 x\<close> the exponent \<open>e\<close> with
  \<open>2 ^ e \<le> x < 2 ^ (e + 1)\<close> for a positive \<open>x\<close>.
\<close>

fun bitlength :: "nat \<Rightarrow> nat" where
  "bitlength n = (if n = 0 then 0 else Suc (bitlength (n div 2)))"

declare bitlength.simps [simp del]

definition pow2 :: "int \<Rightarrow> real" where
  "pow2 e = (if 0 \<le> e then 2 ^ nat e else 1 / 2 ^ nat (- e))"

definition ilog2 :: "real \<Rightarrow> int" where
  "ilog2 x = (if 1 \<le> x then int (bitlength (nat \<lfloor>x\<rfloor>)) - 1
              else - int (bitlength (nat (\<lceil>1 / x\<rceil> - 1))))"

text \<open>Rounding to the nearest integer, ties to the even one.\<close>

definition rne :: "real \<Rightarrow> int" where
  "rne x = (let f = \<lfloor>x\<rfloor>; r = x - of_int f
            in if r < 1 / 2 then f else if 1 / 2 < r then f + 1 else if even f then f else f + 1)"

definition fl :: "real \<Rightarrow> real" where
  "fl x = (if x = 0 then 0
           else let e = max (ilog2 \<bar>x\<bar> - 52) (- 1074) in of_int (rne (x / pow2 e)) * pow2 e)"

text \<open>
  The result of an operation is the exact result rounded by \<open>fl\<close>. A result that rounds to
  \<open>2 ^ 1024\<close> or beyond is \<open>Infinity\<close> in JavaScript; the model returns \<open>None\<close> there, as it
  does for a division by zero, so that \<open>Some\<close> always carries a finite number.
\<close>

definition num :: "real \<Rightarrow> real option" where
  "num x = (if 2 ^ 1024 \<le> \<bar>fl x\<bar> then None else Some (fl x))"

definition fadd :: "real \<Rightarrow> real \<Rightarrow> real option" where
  "fadd a b = num (a + b)"

definition fsub :: "real \<Rightarrow> real \<Rightarrow> real option" where
  "fsub a b = num (a - b)"

definition fmul :: "real \<Rightarrow> real \<Rightarrow> real option" where
  "fmul a b = num (a * b)"

definition fdiv :: "real \<Rightarrow> real \<Rightarrow> real option" where
  "fdiv a b = (if b = 0 then None else num (a / b))"

text \<open>\<open>Math.round\<close>: the nearest integer, a tie going up.\<close>

definition Math_round :: "real \<Rightarrow> real" where
  "Math_round x = of_int \<lfloor>x + 1 / 2\<rfloor>"

text \<open>
  \<open>Number(item.priceAtTime)\<close>: the column is DECIMAL(10,2), so a price is an integer number of
  hundredths, and \<open>Number\<close> gives the double nearest to that decimal.
\<close>

definition Number_of_decimal :: "int \<Rightarrow> real option" where
  "Number_of_decimal hundredths = num (of_int hundredths / 100)"

text \<open>\<open>items.reduce((sum, item) => sum + Number(item.priceAtTime) * item.quantity, 0)\<close>\<close>

fun reduceSubtotal :: "real \<Rightarrow> int cart_item list \<Rightarrow> real option" where
  "reduceSubtotal acc [] = Some acc"
| "reduceSubtotal acc (item # items) =
     Option.bind (Number_of_decimal (ci_priceAtTime item)) (\<lambda>price.
     Option.bind (num (of_int (ci_quantity item))) (\<lambda>quantity.
     Option.bind (fmul price quantity) (\<lambda>line.
     Option.bind (fadd acc line) (\<lambda>acc'. reduceSubtotal acc' items))))"

text \<open>\<open>Math.round(x * 100) / 100\<close>\<close>

definition round2 :: "real \<Rightarrow> real option" where
  "round2 x = Option.bind (fmul x 100) (\<lambda>y. fdiv (Math_round y) 100)"

text \<open>
  \<open>calculateCartTotals\<close> (l.390-422) on the items of a cart whose prices are in hundredths.
  The literals \<open>0.085\<close> and \<open>2.99\<close> are the doubles nearest to them; \<open>25\<close>, \<open>100\<close> and \<open>0\<close> are
  doubles. The name carries the suffix \<open>_js\<close> because \<open>calculateCartTotals\<close> is the field of
  \<open>env\<close> through which \<open>createOrder\<close> reaches this function.
\<close>

definition calculateCartTotals_js :: "int cart_item list \<Rightarrow> real cart_totals option" where
  "calculateCartTotals_js items =
     Option.bind (reduceSubtotal 0 items) (\<lambda>subtotal.
     let taxRate = fl (85 / 1000) in
     Option.bind (fmul subtotal taxRate) (\<lambda>tax.
     let deliveryFee = (if subtotal < 25 then fl (299 / 100) else 0);
         discount = 0
     in
     Option.bind (fadd subtotal tax) (\<lambda>s1.
     Option.bind (fadd s1 deliveryFee) (\<lambda>s2.
     Option.bind (fsub s2 discount) (\<lambda>total.
     Option.bind (round2 subtotal) (\<lambda>r_subtotal.
     Option.bind (round2 tax) (\<lambda>r_tax.
     Option.bind (round2 deliveryFee) (\<lambda>r_deliveryFee.
     Option.bind (round2 discount) (\<lambda>r_discount.
     Option.bind (round2 total) (\<lambda>r_total.
       Some \<lparr> t_subtotal = r_subtotal, t_tax = r_tax, t_deliveryFee = r_deliveryFee,
              t_discount = r_discount, t_total = r_total \<rparr>))))))))))"

text \<open>
  The specification's reading, for comparison: the same formula in exact decimal arithmetic,
  each field rounded to two fractional digits, a tie going up. This definition follows the
  specification, not the source.
\<close>

definition half_up2 :: "real \<Rightarrow> real" where
  "half_up2 x = of_int \<lfloor>x * 100 + 1 / 2\<rfloor> / 100"

definition decimalCartTotals :: "int cart_item list \<Rightarrow> real cart_totals" where
  "decimalCartTotals items =
     (let subtotal = (\<Sum>item\<leftarrow>items. of_int (ci_priceAtTime item) / 100 * of_int (ci_quantity item));
          tax = subtotal * (85 / 1000);
          deliveryFee = (if subtotal < 25 then 299 / 100 else 0);
          discount = 0;
          total = subtotal + tax + deliveryFee - discount
      in \<lparr> t_subtotal = half_up2 subtotal, t_tax = half_up2 tax,
            t_deliveryFee = half_up2 deliveryFee, t_discount = half_up2 discount,
            t_total = half_up2 total \<rparr>)"

text \<open>The number of hundredths nearest to a value.\<close>

definition cents_of :: "real \<Rightarrow> int" where
  "cents_of v = \<lfloor>v * 100 + 1 / 2\<rfloor>"

section \<open>Example states\<close>

text \<open>
  Concrete databases and environments on which the theorems below are evaluated: one store
  (\<open>store1\<close>), one user (\<open>user1\<close>), one product (\<open>product1\<close>) and one client-chosen idempotency
  key (\<open>key1\<close>). Money is an integer number of cents here. The example payment provider declines the method
  \<open>test_fail\<close>, as the simulated provider of the repository does, and accepts any other.
\<close>

definition store1 :: string where
  "store1 = ''6fa459ea-ee8a-3ca4-894e-db77e160355e''"

definition user1 :: string where
  "user1 = ''16fd2706-8baf-433b-82eb-8c7fada847da''"

definition product1 :: string where
  "product1 = ''42''"

definition key1 :: string where
  "key1 = ''886313e1-3b8a-5372-9b90-0c9aee199e5d''"

definition db0 :: "int db" where
  "db0 = \<lparr> storeInventory = Map.empty, inventoryReservation = [], idempotencyKey = Map.empty,
           order_tbl = [], orderItem = [], shoppingCart = [], cartItem = [],
           store_tbl = Map.empty, nextId = 0 \<rparr>"

definition stock :: "int \<Rightarrow> int \<Rightarrow> bool \<Rightarrow> store_inventory" where
  "stock qa rq av = \<lparr> quantityAvailable = qa, reservedQuantity = rq, isAvailable = av \<rparr>"

definition want :: "int \<Rightarrow> reservation_request" where
  "want q = \<lparr> rq_storeId = store1, rq_productId = product1, rq_quantity = q, rq_userId = Some user1,
              rq_orderId = None, rq_ttlMinutes = 15 \<rparr>"

definition hold :: "nat \<Rightarrow> int \<Rightarrow> ReservationStatus \<Rightarrow> inventory_reservation" where
  "hold i q st = \<lparr> res_id = i, res_storeId = store1, res_productId = product1, res_quantity = q,
                    res_userId = Some user1, res_orderId = None, res_status = st,
                    res_expiresAt = 900000 \<rparr>"

text \<open>The product at the store: 5 in stock, 2 of them held by reservation 0 of the user.\<close>

definition held :: "int db" where
  "held = db0\<lparr> storeInventory := [(store1, product1) \<mapsto> stock 5 2 True],
               inventoryReservation := [hold 0 2 R_reserved], nextId := 1 \<rparr>"

definition env0 :: "int env" where
  "env0 = \<lparr> randomUUID = ''3b241101-e2bb-4255-8caf-4136c566a962'',
            sha256_json = (\<lambda>data. ''sha-'' @ co_paymentMethod data),
            date_now = 0,
            draws = [''ORD-1'', ''ORD-2''],
            productName = (\<lambda>p. None),
            processPayment =
              (\<lambda>r. if pay_paymentMethod r = ''test_fail''
                    then \<lparr> pr_success = False, pr_error = Some ''Test payment failure'' \<rparr>
                    else \<lparr> pr_success = True, pr_error = None \<rparr>),
            calculateCartTotals =
              (\<lambda>items. \<lparr> t_subtotal = 0, t_tax = 0, t_deliveryFee = 0, t_discount = 0, t_total = 0 \<rparr>),
            lineTotal = (\<lambda>p q. p * q) \<rparr>"

definition env_next :: "int env" where
  "env_next = env0\<lparr> randomUUID := ''9c5b94b1-35ad-49bb-b118-8e8fc24abf80'' \<rparr>"

text \<open>The store holds 10 of the product, 2 of them held by an earlier reservation of the
  user (made through \<open>createReservation\<close>, no order attached); the user's cart at the store
  holds one.\<close>

definition shop :: "int db" where
  "shop = db0\<lparr> storeInventory := [(store1, product1) \<mapsto> stock 10 2 True],
               inventoryReservation := [hold 0 2 R_reserved],
               shoppingCart := [\<lparr> sc_id = 1, sc_userId = user1, sc_storeId = store1, sc_isActive = True \<rparr>],
               cartItem := [\<lparr> ci_id = 2, ci_cartId = 1, ci_productId = product1, ci_quantity = 1,
                              ci_priceAtTime = 500 \<rparr>],
               store_tbl := [store1 \<mapsto> \<lparr> st_name = ''Main'', st_address = None, st_phone = None \<rparr>],
               nextId := 3 \<rparr>"

definition checkout :: "string \<Rightarrow> string option \<Rightarrow> order_request" where
  "checkout method k = \<lparr> co_storeId = store1, co_deliveryType = pickup, co_deliveryAddress = None,
                          co_specialInstructions = None, co_paymentMethod = method,
                          co_idempotencyKey = k \<rparr>"

text \<open>The user's cart in \<open>shop\<close> as \<open>getCartWithItems\<close> returns it.\<close>

definition cart0 :: "int cart_with_items" where
  "cart0 = \<lparr> cw_id = 1,
             cw_items = [(\<lparr> ci_id = 2, ci_cartId = 1, ci_productId = product1, ci_quantity = 1,
                            ci_priceAtTime = 500 \<rparr>, None)],
             cw_totals = \<lparr> t_subtotal = 0, t_tax = 0, t_deliveryFee = 0, t_discount = 0, t_total = 0 \<rparr> \<rparr>"

text \<open>The user puts one of the product into the (emptied) cart again.\<close>

definition refill :: "int db \<Rightarrow> int db" where
  "refill d = d\<lparr> cartItem := [\<lparr> ci_id = nextId d, ci_cartId = 1, ci_productId = product1,
                                   ci_quantity = 1, ci_priceAtTime = 500 \<rparr>],
                  nextId := Suc (nextId d) \<rparr>"

text \<open>The database after the user's checkout of \<open>shop\<close> by card under the key \<open>key1\<close>.\<close>

definition settled :: "int db" where
  "settled = (case createOrder env0 shop user1 (checkout ''card'' (Some key1)) of
                Some (d1, charges, out) \<Rightarrow> d1
              | None \<Rightarrow> shop)"

text \<open>5 in stock, 4 of them reserved; the cart asks for 3.\<close>

definition scarce :: "int db" where
  "scarce = shop\<lparr> storeInventory := [(store1, product1) \<mapsto> stock 5 4 True],
                  cartItem := [\<lparr> ci_id = 2, ci_cartId = 1, ci_productId = product1, ci_quantity = 3,
                                 ci_priceAtTime = 500 \<rparr>] \<rparr>"

text \<open>A cart line of one product at 5.00.\<close>

definition single_item :: "int cart_item" where
  "single_item = \<lparr> ci_id = 2, ci_cartId = 1, ci_productId = product1, ci_quantity = 1,
                    ci_priceAtTime = 500 \<rparr>"

lemmas model_defs = createOrder_def proceed_def attempt_def checkoutTransaction_def keyOf_def
  validateCartForCheckout_def getCartWithItems_def checkItem_def getOrderById_def markUsed_def
  newOrder_def insertOrder_def recordPayment_def clearCartItems_def
  releaseReservationsForFailedOrder_def updateReservation_def findReservation_def setReservation_def
  releaseReservedQuantity_def finishIdempotency_def incrementReserved_def insertReservation_def
  itemName_def Let_def

lemmas example_defs = env0_def env_next_def shop_def checkout_def db0_def hold_def stock_def
  refill_def cart0_def scarce_def key1_def

section \<open>The inventory ledger: reserve\<close>

lemma createReservation_granted:
  assumes "storeInventory d (rq_storeId req, rq_productId req) = Some row" "isAvailable row"
    "rq_quantity req \<le> quantityAvailable row - reservedQuantity row"
  shows "createReservation now ttl d req =
     ((insertReservation d (newReservation now ttl (nextId d) req))
        \<lparr> storeInventory := (storeInventory d)((rq_storeId req, rq_productId req) \<mapsto>
             row\<lparr> reservedQuantity := reservedQuantity row + rq_quantity req \<rparr>) \<rparr>,
      Inr (newReservation now ttl (nextId d) req))"
  using assms
  by (simp add: createReservation_def findAvailableInventory_def Let_def incrementReserved_def
        insertReservation_def)

lemma createReservation_short:
  assumes "storeInventory d (rq_storeId req, rq_productId req) = Some row" "isAvailable row"
    "quantityAvailable row - reservedQuantity row < rq_quantity req"
  shows "createReservation now ttl d req =
     (d, Inl (Only_items_available (quantityAvailable row - reservedQuantity row) (rq_quantity req)))"
  using assms
  by (simp add: createReservation_def findAvailableInventory_def Let_def)

lemma createReservation_unavailable:
  assumes "storeInventory d (rq_storeId req, rq_productId req) = None
     \<or> (\<exists>row. storeInventory d (rq_storeId req, rq_productId req) = Some row \<and> \<not> isAvailable row)"
  shows "createReservation now ttl d req = (d, Inl Product_not_available)"
  using assms
  by (auto simp add: createReservation_def findAvailableInventory_def Let_def)

text \<open>
  Claim C3. For every inventory state and every requested quantity of at least 1,
  \<open>createReservation\<close> succeeds exactly when the record exists, is available and
  \<open>quantityAvailable - reservedQuantity\<close> is at least the quantity; on success the record's
  \<open>reservedQuantity\<close> has grown by exactly the quantity (no other inventory record changes);
  on insufficient stock it fails with the error that carries
  \<open>quantityAvailable - reservedQuantity\<close> and the database is as before.
\<close>

theorem createReservation_reserve:
  fixes d :: "'m db"
  assumes "1 \<le> rq_quantity req"
  shows "((\<exists>d' r. createReservation now ttl d req = (d', Inr r)) \<longleftrightarrow>
            (\<exists>row. storeInventory d (rq_storeId req, rq_productId req) = Some row \<and> isAvailable row
                   \<and> rq_quantity req \<le> quantityAvailable row - reservedQuantity row))
       \<and> (\<forall>d' r. createReservation now ttl d req = (d', Inr r) \<longrightarrow>
            (\<exists>row. storeInventory d (rq_storeId req, rq_productId req) = Some row
                 \<and> storeInventory d' = (storeInventory d)((rq_storeId req, rq_productId req) \<mapsto>
                      row\<lparr> reservedQuantity := reservedQuantity row + rq_quantity req \<rparr>)))
       \<and> (\<forall>row. storeInventory d (rq_storeId req, rq_productId req) = Some row \<and> isAvailable row
                 \<and> quantityAvailable row - reservedQuantity row < rq_quantity req \<longrightarrow>
             createReservation now ttl d req =
               (d, Inl (Only_items_available (quantityAvailable row - reservedQuantity row) (rq_quantity req))))"
proof -
  let ?k = "(rq_storeId req, rq_productId req)"
  consider (none) "storeInventory d ?k = None"
    | (off) row where "storeInventory d ?k = Some row" "\<not> isAvailable row"
    | (short) row where "storeInventory d ?k = Some row" "isAvailable row"
        "quantityAvailable row - reservedQuantity row < rq_quantity req"
    | (ok) row where "storeInventory d ?k = Some row" "isAvailable row"
        "rq_quantity req \<le> quantityAvailable row - reservedQuantity row"
    by (cases "storeInventory d ?k") force+
  then show ?thesis
  proof cases
    case none
    then show ?thesis using createReservation_unavailable[of d req now ttl] by simp
  next
    case off
    then show ?thesis using createReservation_unavailable[of d req now ttl] by auto
  next
    case short
    then show ?thesis using createReservation_short[OF short, of now ttl] by auto
  next
    case ok
    then show ?thesis using createReservation_granted[OF ok, of now ttl]
      by (auto simp: insertReservation_def)
  qed
qed

text \<open>The scenario of the specification: with 5 in stock and 3 reserved, a request for 3
  fails carrying 2 and changes nothing; with none reserved it is granted.\<close>

theorem createReservation_reserve_witness:
  "1 \<le> rq_quantity (want 3)
   \<and> createReservation 0 15 (db0\<lparr> storeInventory := [(store1, product1) \<mapsto> stock 5 3 True] \<rparr>) (want 3)
       = (db0\<lparr> storeInventory := [(store1, product1) \<mapsto> stock 5 3 True] \<rparr>, Inl (Only_items_available 2 3))
   \<and> (\<exists>d' r. createReservation 0 15 (db0\<lparr> storeInventory := [(store1, product1) \<mapsto> stock 5 0 True] \<rparr>) (want 3)
               = (d', Inr r))"
proof -
  have q: "1 \<le> rq_quantity (want 3)" by (simp add: want_def)
  have a: "createReservation 0 15 (db0\<lparr> storeInventory := [(store1, product1) \<mapsto> stock 5 3 True] \<rparr>) (want 3)
       = (db0\<lparr> storeInventory := [(store1, product1) \<mapsto> stock 5 3 True] \<rparr>, Inl (Only_items_available 2 3))"
    using createReservation_reserve[OF q, of 0 15 "db0\<lparr> storeInventory := [(store1, product1) \<mapsto> stock 5 3 True] \<rparr>"]
    by (simp add: want_def stock_def)
  have b: "\<exists>d' r. createReservation 0 15 (db0\<lparr> storeInventory := [(store1, product1) \<mapsto> stock 5 0 True] \<rparr>) (want 3)
                    = (d', Inr r)"
    using createReservation_reserve[OF q, of 0 15 "db0\<lparr> storeInventory := [(store1, product1) \<mapsto> stock 5 0 True] \<rparr>"]
    by (simp add: want_def stock_def)
  show ?thesis using q a b by blast
qed

section \<open>Reserve calls that interleave, and reserve calls in turn\<close>

text \<open>A call that is never interrupted is \<open>createReservation\<close>: the three steps of one task,
  run back to back, give its state and its result.\<close>

lemma cr_step_thrice:
  "run_schedule now ttl d [T_start req] [0, 0, 0] =
     (case createReservation now ttl d req of (d', r) \<Rightarrow> (d', [T_done r]))"
  by (simp add: createReservation_def Let_def split: option.splits prod.splits sum.splits)

text \<open>
  Claim C1 as stated fails: with 5 in stock and nothing reserved, two calls for 3 each whose
  reads both happen before either write are both granted; 6 are reserved out of 5.
\<close>

theorem interleaved_reserve_oversells:
  "\<exists>d' r1 r2.
      run_schedule 0 15 (db0\<lparr> storeInventory := [(store1, product1) \<mapsto> stock 5 0 True] \<rparr>)
         [T_start (want 3), T_start (want 3)] [0, 1, 0, 0, 1, 1]
        = (d', [T_done (Inr r1), T_done (Inr r2)])
    \<and> res_quantity r1 + res_quantity r2 = 6
    \<and> storeInventory d' (store1, product1) = Some (stock 5 6 True)
    \<and> quantityAvailable (stock 5 6 True) < res_quantity r1 + res_quantity r2"
  by (simp add: findAvailableInventory_def incrementReserved_def insertReservation_def
        newReservation_def want_def db0_def stock_def Let_def)

lemma reserve_in_turn_key:
  fixes d :: "'m db"
  assumes "storeInventory d (sid, pid) = Some row"
    and "reservedQuantity row \<le> quantityAvailable row"
    and "list_all (\<lambda>req. rq_storeId req = sid \<and> rq_productId req = pid) reqs"
    and "reserve_in_turn now ttl d reqs = (d', rs)"
  shows "storeInventory d' (sid, pid) =
           Some (row\<lparr> reservedQuantity := reservedQuantity row + sum_list (map granted rs) \<rparr>)
         \<and> reservedQuantity row + sum_list (map granted rs) \<le> quantityAvailable row"
  using assms
proof (induction reqs arbitrary: d row rs)
  case Nil
  then show ?case by simp
next
  case (Cons req reqs)
  obtain d1 r where step: "createReservation now ttl d req = (d1, r)"
    by (cases "createReservation now ttl d req")
  obtain rs' where rest: "reserve_in_turn now ttl d1 reqs = (d', rs')" and rs: "rs = r # rs'"
    using Cons.prems(4) step by (auto split: prod.splits)
  have key: "rq_storeId req = sid" "rq_productId req = pid"
    and others: "list_all (\<lambda>req. rq_storeId req = sid \<and> rq_productId req = pid) reqs"
    using Cons.prems(3) by simp_all
  have row: "storeInventory d (rq_storeId req, rq_productId req) = Some row"
    using Cons.prems(1) key by simp
  show ?case
  proof (cases "isAvailable row \<and> rq_quantity req \<le> quantityAvailable row - reservedQuantity row")
    case True
    let ?row1 = "row\<lparr> reservedQuantity := reservedQuantity row + rq_quantity req \<rparr>"
    from True createReservation_granted[OF row, of now ttl] step
    have d1: "storeInventory d1 (sid, pid) = Some ?row1"
      and r: "r = Inr (newReservation now ttl (nextId d) req)"
      using key by auto
    have le: "reservedQuantity ?row1 \<le> quantityAvailable ?row1" using True by simp
    have g: "granted r = rq_quantity req" using r by (simp add: newReservation_def)
    from Cons.IH[OF d1 le others rest] g rs show ?thesis
      by (simp add: add.assoc)
  next
    case False
    then have "createReservation now ttl d req = (d, Inl Product_not_available)
       \<or> createReservation now ttl d req =
            (d, Inl (Only_items_available (quantityAvailable row - reservedQuantity row) (rq_quantity req)))"
      using createReservation_unavailable[of d req now ttl] createReservation_short[OF row, of now ttl] row
      by (cases "isAvailable row") auto
    then have same: "d1 = d" and g: "granted r = 0"
      using step by auto
    from Cons.IH[OF _ Cons.prems(2) others rest] Cons.prems(1) same g rs show ?thesis
      by simp
  qed
qed

text \<open>
  Claim C1, amended. For every sequence of reserve calls against one (storeId, productId)
  key that run one after another, each returning before the next begins, from a record
  with \<open>reservedQuantity \<le> quantityAvailable\<close>: the quantities of the calls that succeed sum
  to at most \<open>quantityAvailable - reservedQuantity\<close>, and the record's \<open>reservedQuantity\<close>
  ends as its initial value plus that sum.
\<close>

theorem reserve_in_turn_no_oversell:
  fixes d :: "'m db"
  assumes "storeInventory d (sid, pid) = Some row"
    and "reservedQuantity row \<le> quantityAvailable row"
    and "list_all (\<lambda>req. rq_storeId req = sid \<and> rq_productId req = pid) reqs"
    and "reserve_in_turn now ttl d reqs = (d', rs)"
  shows "sum_list (map granted rs) \<le> quantityAvailable row - reservedQuantity row
       \<and> storeInventory d' (sid, pid) =
           Some (row\<lparr> reservedQuantity := reservedQuantity row + sum_list (map granted rs) \<rparr>)"
  using reserve_in_turn_key[OF assms] by simp

text \<open>Two calls for 3 in turn, 5 in stock: the first is granted, the second fails
  carrying 2, and 3 are reserved.\<close>

theorem reserve_in_turn_no_oversell_witness:
  "\<exists>d' r.
     reserve_in_turn 0 15 (db0\<lparr> storeInventory := [(store1, product1) \<mapsto> stock 5 0 True] \<rparr>) [want 3, want 3]
       = (d', [Inr r, Inl (Only_items_available 2 3)])
   \<and> sum_list (map granted [Inr r, Inl (Only_items_available 2 3)]) \<le> 5 - 0
   \<and> storeInventory d' (store1, product1) = Some (stock 5 3 True)"
proof -
  let ?d = "db0\<lparr> storeInventory := [(store1, product1) \<mapsto> stock 5 0 True] \<rparr>"
  obtain d' r where run: "reserve_in_turn 0 15 ?d [want 3, want 3] = (d', [Inr r, Inl (Only_items_available 2 3)])"
    and q: "res_quantity r = 3"
    by (simp add: createReservation_def findAvailableInventory_def incrementReserved_def
          insertReservation_def newReservation_def want_def db0_def stock_def Let_def)
  have row: "storeInventory ?d (store1, product1) = Some (stock 5 0 True)" by simp
  have le: "reservedQuantity (stock 5 0 True) \<le> quantityAvailable (stock 5 0 True)"
    by (simp add: stock_def)
  have key: "list_all (\<lambda>req. rq_storeId req = store1 \<and> rq_productId req = product1) [want 3, want 3]"
    by (simp add: want_def)
  from reserve_in_turn_no_oversell[OF row le key run] run q show ?thesis
    by (simp add: stock_def)
qed

section \<open>The reservation state machine and the ledger\<close>

text \<open>
  Claim C4 fails on \<open>updateReservation\<close>: reservation 0 (quantity 2, \<open>reserved\<close>) is released;
  \<open>cancelReservation\<close> then rejects it, but a second \<open>updateReservation\<close> to \<open>released\<close> is
  accepted and decrements the counter again, from 0 to -2.
\<close>

theorem updateReservation_released_twice:
  "\<exists>d1 r1 d2 r2.
      updateReservation held 0 R_released None = (d1, Inr r1)
    \<and> storeInventory d1 (store1, product1) = Some (stock 5 0 True)
    \<and> res_status r1 = R_released
    \<and> cancelReservation d1 0 = (d1, Inl Reservation_cannot_be_cancelled)
    \<and> updateReservation d1 0 R_released None = (d2, Inr r2)
    \<and> storeInventory d2 (store1, product1) = Some (stock 5 (- 2) True)"
  by (simp add: updateReservation_def cancelReservation_def findReservation_def setReservation_def
        releaseReservedQuantity_def incrementReserved_def held_def db0_def hold_def stock_def Let_def)

text \<open>
  Claim C6 as stated fails: \<open>updateReservation\<close> to \<open>used\<close> takes the reservation's quantity
  off \<open>reservedQuantity\<close> (here from 2 to 0).
\<close>

theorem updateReservation_used_decrements:
  "\<exists>d1 r1.
      updateReservation held 0 R_used (Some 7) = (d1, Inr r1)
    \<and> res_status r1 = R_used
    \<and> storeInventory held (store1, product1) = Some (stock 5 2 True)
    \<and> storeInventory d1 (store1, product1) = Some (stock 5 0 True)"
  by (simp add: updateReservation_def findReservation_def setReservation_def
        releaseReservedQuantity_def incrementReserved_def held_def db0_def hold_def stock_def Let_def)

lemma storeInventory_setReservation [simp]:
  "storeInventory (setReservation d rid st oid) = storeInventory d"
  by (simp add: setReservation_def)

lemma insertOrder_fields [simp]:
  "idempotencyKey (insertOrder t ord) = idempotencyKey t"
  "order_tbl (insertOrder t ord) = order_tbl t @ [ord]"
  "nextId (insertOrder t ord) = Suc (nextId t)"
  "storeInventory (insertOrder t ord) = storeInventory t"
  by (simp_all add: insertOrder_def)

lemma recordPayment_fields [simp]:
  "idempotencyKey (recordPayment b i t) = idempotencyKey t"
  "nextId (recordPayment b i t) = nextId t"
  "storeInventory (recordPayment b i t) = storeInventory t"
  "length (order_tbl (recordPayment b i t)) = length (order_tbl t)"
  by (simp_all add: recordPayment_def)

lemma markUsed_fields [simp]:
  "idempotencyKey (markUsed ids i t) = idempotencyKey t"
  "nextId (markUsed ids i t) = nextId t"
  "storeInventory (markUsed ids i t) = storeInventory t"
  "order_tbl (markUsed ids i t) = order_tbl t"
  by (simp_all add: markUsed_def)

lemma clearCartItems_fields [simp]:
  "idempotencyKey (clearCartItems c t) = idempotencyKey t"
  "nextId (clearCartItems c t) = nextId t"
  "storeInventory (clearCartItems c t) = storeInventory t"
  "order_tbl (clearCartItems c t) = order_tbl t"
  by (simp_all add: clearCartItems_def)

lemma newOrder_fields [simp]:
  "o_id (newOrder i n u data cart) = i"
  "o_status (newOrder i n u data cart) = O_pending"
  "o_paymentStatus (newOrder i n u data cart) = P_pending"
  by (simp_all add: newOrder_def)

lemma incrementReserved_frame:
  "incrementReserved t sid pid n = (t', r) \<Longrightarrow>
     idempotencyKey t' = idempotencyKey t \<and> order_tbl t' = order_tbl t \<and> nextId t' = nextId t"
  by (auto simp: incrementReserved_def split: option.splits)

lemma incrementReserved_error:
  "incrementReserved t sid pid n = (t', Inl e) \<Longrightarrow> e = Record_to_update_not_found"
  by (auto simp: incrementReserved_def split: option.splits)

lemma reserveItems_frame:
  "reserveItems now userId storeId t ips = (t', r) \<Longrightarrow>
     idempotencyKey t' = idempotencyKey t \<and> order_tbl t' = order_tbl t \<and> nextId t \<le> nextId t'"
proof (induction ips arbitrary: t t' r)
  case Nil
  then show ?case by simp
next
  case (Cons ip ips)
  obtain item p where ip: "ip = (item, p)" by (cases ip)
  let ?res = "\<lparr> res_id = nextId t, res_storeId = storeId, res_productId = ci_productId item,
              res_quantity = ci_quantity item, res_userId = Some userId, res_orderId = None,
              res_status = R_reserved, res_expiresAt = now + 15 * 60 * 1000 \<rparr>"
  obtain t2 r2 where inc:
    "incrementReserved (insertReservation t ?res) storeId (ci_productId item) (ci_quantity item) = (t2, r2)"
    by (cases "incrementReserved (insertReservation t ?res) storeId (ci_productId item) (ci_quantity item)")
  from incrementReserved_frame[OF inc]
  have f2: "idempotencyKey t2 = idempotencyKey t" "order_tbl t2 = order_tbl t" "nextId t2 = Suc (nextId t)"
    by (simp_all add: insertReservation_def)
  show ?case
  proof (cases r2)
    case (Inl e)
    then show ?thesis using Cons.prems ip inc f2 by (simp add: Let_def)
  next
    case (Inr u)
    obtain t3 r3 where rest: "reserveItems now userId storeId t2 ips = (t3, r3)"
      by (cases "reserveItems now userId storeId t2 ips")
    from Cons.IH[OF rest] f2
    have "idempotencyKey t3 = idempotencyKey t \<and> order_tbl t3 = order_tbl t \<and> nextId t \<le> nextId t3"
      by simp
    moreover have "t' = t3"
      using Cons.prems ip inc Inr rest by (cases r3) (simp_all add: Let_def)
    ultimately show ?thesis by simp
  qed
qed

lemma reserveItems_error:
  "reserveItems now userId storeId t ips = (t', Inl e) \<Longrightarrow> e = Record_to_update_not_found"
proof (induction ips arbitrary: t t')
  case Nil
  then show ?case by simp
next
  case (Cons ip ips)
  then show ?case
    by (cases ip) (auto simp: Let_def split: prod.splits sum.splits dest: incrementReserved_error)
qed

lemma createOrderItems_frame:
  "createOrderItems env oid t ips = (t', its) \<Longrightarrow>
     idempotencyKey t' = idempotencyKey t \<and> order_tbl t' = order_tbl t \<and> nextId t \<le> nextId t'
     \<and> storeInventory t' = storeInventory t"
proof (induction ips arbitrary: t t' its)
  case Nil
  then show ?case by simp
next
  case (Cons ip ips)
  let ?t1 = "t\<lparr> orderItem := orderItem t @ [\<lparr> oi_id = nextId t, oi_orderId = oid,
                  oi_productId = ci_productId (fst ip),
                  oi_productName = itemName ip, oi_quantity = ci_quantity (fst ip),
                  oi_unitPrice = ci_priceAtTime (fst ip),
                  oi_totalPrice = lineTotal env (ci_priceAtTime (fst ip)) (ci_quantity (fst ip)),
                  oi_specialInstructions = None \<rparr>], nextId := Suc (nextId t) \<rparr>"
  obtain t2 its2 where rest: "createOrderItems env oid ?t1 ips = (t2, its2)"
    by (cases "createOrderItems env oid ?t1 ips")
  have "t' = t2" using Cons.prems rest by (simp add: Let_def)
  with Cons.IH[OF rest] show ?case by simp
qed

text \<open>In a transaction that commits, the inventory is as the reservation loop left it:
  nothing after the loop, the transition to \<open>used\<close> included, writes an inventory record.\<close>

lemma storeInventory_checkoutTransaction:
  assumes "checkoutTransaction env t userId data cart = Some (t', charges, Inr result)"
  shows "storeInventory t' =
           storeInventory (fst (reserveItems (date_now env) userId (co_storeId data) t (cw_items cart)))"
  using assms
  by (auto simp: checkoutTransaction_def Let_def
           split: prod.splits sum.splits option.splits if_splits
           dest!: createOrderItems_frame)

text \<open>
  Claim C6, amended. \<open>updateReservation\<close> on an existing reservation whose inventory record
  exists succeeds and sets the status it is given; when that status is \<open>used\<close>, \<open>released\<close>
  or \<open>expired\<close> the record's \<open>reservedQuantity\<close> is decreased by the reservation's quantity,
  and when it is \<open>cancelled\<close> or \<open>reserved\<close> the inventory is unchanged. The hold persists
  through \<open>used\<close> only in checkout: a checkout transaction that commits leaves every
  inventory record as its reservation loop (which only increments) left it.
\<close>

theorem updateReservation_ledger:
  fixes d t :: "'m db"
  assumes "findReservation d rid = Some r"
    and "storeInventory d (res_storeId r, res_productId r) = Some row"
  shows "(\<exists>d' r'. updateReservation d rid status oid = (d', Inr r') \<and> res_status r' = status
            \<and> (status = R_used \<or> status = R_released \<or> status = R_expired \<longrightarrow>
                 storeInventory d' = (storeInventory d)((res_storeId r, res_productId r) \<mapsto>
                    row\<lparr> reservedQuantity := reservedQuantity row - res_quantity r \<rparr>))
            \<and> (status = R_cancelled \<or> status = R_reserved \<longrightarrow> storeInventory d' = storeInventory d))
       \<and> (\<forall>t' charges result.
             checkoutTransaction env t userId data cart = Some (t', charges, Inr result) \<longrightarrow>
             storeInventory t' =
               storeInventory (fst (reserveItems (date_now env) userId (co_storeId data) t (cw_items cart))))"
proof -
  have "\<exists>d' r'. updateReservation d rid status oid = (d', Inr r') \<and> res_status r' = status
            \<and> (status = R_used \<or> status = R_released \<or> status = R_expired \<longrightarrow>
                 storeInventory d' = (storeInventory d)((res_storeId r, res_productId r) \<mapsto>
                    row\<lparr> reservedQuantity := reservedQuantity row - res_quantity r \<rparr>))
            \<and> (status = R_cancelled \<or> status = R_reserved \<longrightarrow> storeInventory d' = storeInventory d)"
    using assms
    by (cases status)
       (simp_all add: updateReservation_def releaseReservedQuantity_def incrementReserved_def Let_def)
  then show ?thesis
    using storeInventory_checkoutTransaction by blast
qed

text \<open>On the example: reservation 0 of \<open>held\<close> set to \<open>used\<close> brings the counter from 2 to 0
  and set to \<open>cancelled\<close> leaves it at 2; the checkout of \<open>shop\<close> commits with the counter
  at 3, the earlier hold of 2 plus the 1 it reserved and marked \<open>used\<close>.\<close>

theorem updateReservation_ledger_witness:
  "findReservation held 0 = Some (hold 0 2 R_reserved)
   \<and> storeInventory held (res_storeId (hold 0 2 R_reserved), res_productId (hold 0 2 R_reserved))
       = Some (stock 5 2 True)
   \<and> (\<exists>d' r'. updateReservation held 0 R_used None = (d', Inr r') \<and> res_status r' = R_used
         \<and> storeInventory d' (store1, product1) = Some (stock 5 0 True))
   \<and> (\<exists>d' r'. updateReservation held 0 R_cancelled None = (d', Inr r') \<and> res_status r' = R_cancelled
         \<and> storeInventory d' (store1, product1) = Some (stock 5 2 True))
   \<and> (\<exists>t' charges result.
         checkoutTransaction env0 shop user1 (checkout ''card'' None) cart0 = Some (t', charges, Inr result)
       \<and> storeInventory t' (store1, product1) = Some (stock 10 3 True)
       \<and> map res_status (inventoryReservation t') = [R_reserved, R_used])"
proof -
  have f: "findReservation held 0 = Some (hold 0 2 R_reserved)"
    by (simp add: findReservation_def held_def db0_def hold_def)
  have i: "storeInventory held (res_storeId (hold 0 2 R_reserved), res_productId (hold 0 2 R_reserved))
             = Some (stock 5 2 True)"
    by (simp add: held_def db0_def hold_def)
  have u: "\<exists>d' r'. updateReservation held 0 R_used None = (d', Inr r') \<and> res_status r' = R_used
         \<and> storeInventory d' (store1, product1) = Some (stock 5 0 True)"
    using updateReservation_ledger[OF f i, of R_used None env0 shop "user1" "checkout ''card'' None" cart0]
    by (auto simp: held_def db0_def hold_def stock_def)
  have c: "\<exists>d' r'. updateReservation held 0 R_cancelled None = (d', Inr r') \<and> res_status r' = R_cancelled
         \<and> storeInventory d' (store1, product1) = Some (stock 5 2 True)"
    using updateReservation_ledger[OF f i, of R_cancelled None env0 shop "user1" "checkout ''card'' None" cart0]
    by (auto simp: held_def db0_def hold_def stock_def)
  obtain t' charges result where
    tx: "checkoutTransaction env0 shop user1 (checkout ''card'' None) cart0 = Some (t', charges, Inr result)"
    and st: "map res_status (inventoryReservation t') = [R_reserved, R_used]"
    by (simp add: model_defs example_defs)
  have "storeInventory t' =
          storeInventory (fst (reserveItems (date_now env0) user1 (co_storeId (checkout ''card'' None))
                                 shop (cw_items cart0)))"
    using updateReservation_ledger[OF f i, of R_used None env0 shop "user1" "checkout ''card'' None" cart0] tx
    by blast
  then have "storeInventory t' (store1, product1) = Some (stock 10 3 True)"
    by (simp add: model_defs example_defs)
  with tx st have e: "\<exists>t' charges result.
         checkoutTransaction env0 shop user1 (checkout ''card'' None) cart0 = Some (t', charges, Inr result)
       \<and> storeInventory t' (store1, product1) = Some (stock 10 3 True)
       \<and> map res_status (inventoryReservation t') = [R_reserved, R_used]"
    by (intro exI conjI)
  from f i u c e show ?thesis by (intro conjI)
qed

section \<open>Checkout: cart validation\<close>

text \<open>
  Claim C8 as stated fails: with 5 in stock and 4 reserved, 1 can be sold, yet the cart that
  asks for 3 is valid: the check compares against \<open>quantityAvailable\<close>.
\<close>

theorem validateCartForCheckout_ignores_reserved:
  "\<exists>cart.
      storeInventory scarce (store1, product1) = Some (stock 5 4 True)
    \<and> quantityAvailable (stock 5 4 True) - reservedQuantity (stock 5 4 True) < 3
    \<and> getCartWithItems env0 scarce user1 store1 = Some cart
    \<and> map (\<lambda>ip. (ci_productId (fst ip), ci_quantity (fst ip))) (cw_items cart) = [(product1, 3)]
    \<and> validateCartForCheckout env0 scarce user1 store1 = (True, [])"
  by (simp add: validateCartForCheckout_def getCartWithItems_def checkItem_def example_defs)

lemma checkItem_empty:
  "checkItem d storeId item = [] \<longleftrightarrow>
     (\<exists>row. storeInventory d (storeId, ci_productId item) = Some row \<and> isAvailable row
           \<and> ci_quantity item \<le> quantityAvailable row)"
  by (auto simp: checkItem_def split: option.splits)

lemma concat_checkItem_empty:
  "concat (map (\<lambda>(item, p). checkItem d storeId item) ips) = [] \<longleftrightarrow>
     list_all (\<lambda>ip. \<exists>row. storeInventory d (storeId, ci_productId (fst ip)) = Some row \<and> isAvailable row
           \<and> ci_quantity (fst ip) \<le> quantityAvailable row) ips"
  by (induction ips) (auto simp: checkItem_empty)

text \<open>
  Claim C8, amended. Cart validation at checkout fails exactly when the user has no active
  cart at the store, the cart is empty, or some line's product has no inventory record at
  the store, is marked unavailable, or has \<open>quantityAvailable\<close> below the line's quantity
  (\<open>reservedQuantity\<close> is not read). When it fails it reports at least one reason, and the
  \<open>try\<close> block stops there with the database as it was and no payment request sent
  (\<open>validateCartForCheckout\<close> itself only reads).
\<close>

theorem validateCartForCheckout_valid:
  fixes d :: "'m db"
  shows "(fst (validateCartForCheckout env d userId (co_storeId data)) \<longleftrightarrow>
            (\<exists>cart. getCartWithItems env d userId (co_storeId data) = Some cart \<and> cw_items cart \<noteq> []
               \<and> list_all (\<lambda>ip. \<exists>row. storeInventory d (co_storeId data, ci_productId (fst ip)) = Some row
                                   \<and> isAvailable row \<and> ci_quantity (fst ip) \<le> quantityAvailable row)
                    (cw_items cart)))
       \<and> (\<not> fst (validateCartForCheckout env d userId (co_storeId data)) \<longrightarrow>
            snd (validateCartForCheckout env d userId (co_storeId data)) \<noteq> []
          \<and> attempt env d userId data =
              Some (d, [], Inl (Cart_validation_failed
                                  (snd (validateCartForCheckout env d userId (co_storeId data))))))"
proof -
  have a: "fst (validateCartForCheckout env d userId (co_storeId data)) \<longleftrightarrow>
            (\<exists>cart. getCartWithItems env d userId (co_storeId data) = Some cart \<and> cw_items cart \<noteq> []
               \<and> list_all (\<lambda>ip. \<exists>row. storeInventory d (co_storeId data, ci_productId (fst ip)) = Some row
                                   \<and> isAvailable row \<and> ci_quantity (fst ip) \<le> quantityAvailable row)
                    (cw_items cart))"
    by (cases "getCartWithItems env d userId (co_storeId data)")
       (simp_all add: validateCartForCheckout_def Let_def concat_checkItem_empty
          del: concat_eq_Nil_conv)
  have b: "snd (validateCartForCheckout env d userId (co_storeId data)) \<noteq> []"
    if "\<not> fst (validateCartForCheckout env d userId (co_storeId data))"
    using that
    by (cases "getCartWithItems env d userId (co_storeId data)")
       (auto simp add: validateCartForCheckout_def Let_def split: if_splits)
  have c: "attempt env d userId data =
              Some (d, [], Inl (Cart_validation_failed
                                  (snd (validateCartForCheckout env d userId (co_storeId data)))))"
    if "\<not> fst (validateCartForCheckout env d userId (co_storeId data))"
    using that by (simp add: attempt_def Let_def)
  from a b c show ?thesis by blast
qed

text \<open>The cart that asks for 3 is valid with 5 in stock and 4 reserved, fails with 2 in
  stock (one reason, database unchanged), and an empty cart fails as empty.\<close>

theorem validateCartForCheckout_valid_witness:
  "validateCartForCheckout env0 scarce user1 (co_storeId (checkout ''card'' None)) = (True, [])
   \<and> validateCartForCheckout env0 (scarce\<lparr> storeInventory := [(store1, product1) \<mapsto> stock 2 0 True] \<rparr>) user1
        (co_storeId (checkout ''card'' None)) = (False, [Only_of_available 2 product1 3])
   \<and> attempt env0 (scarce\<lparr> storeInventory := [(store1, product1) \<mapsto> stock 2 0 True] \<rparr>) user1
        (checkout ''card'' None)
       = Some (scarce\<lparr> storeInventory := [(store1, product1) \<mapsto> stock 2 0 True] \<rparr>, [],
               Inl (Cart_validation_failed [Only_of_available 2 product1 3]))
   \<and> validateCartForCheckout env0 (scarce\<lparr> cartItem := [] \<rparr>) user1 (co_storeId (checkout ''card'' None))
       = (False, [Cart_is_empty])"
proof -
  let ?low = "scarce\<lparr> storeInventory := [(store1, product1) \<mapsto> stock 2 0 True] \<rparr>"
  have v1: "validateCartForCheckout env0 scarce user1 (co_storeId (checkout ''card'' None)) = (True, [])"
    and v2: "validateCartForCheckout env0 ?low user1 (co_storeId (checkout ''card'' None))
               = (False, [Only_of_available 2 product1 3])"
    and v3: "validateCartForCheckout env0 (scarce\<lparr> cartItem := [] \<rparr>) user1
               (co_storeId (checkout ''card'' None)) = (False, [Cart_is_empty])"
    by (simp_all add: validateCartForCheckout_def getCartWithItems_def checkItem_def example_defs)
  from validateCartForCheckout_valid[of env0 ?low "user1" "checkout ''card'' None"] v2
  have "attempt env0 ?low user1 (checkout ''card'' None)
       = Some (?low, [], Inl (Cart_validation_failed [Only_of_available 2 product1 3]))"
    by simp
  with v1 v2 v3 show ?thesis by simp
qed

section \<open>Checkout: payment failure\<close>

text \<open>
  Claim C2 fails on the code. The user holds an earlier reservation (id 0, quantity 2,
  \<open>reserved\<close>, no order) on the product, whose record shows 10 in stock and 2 reserved;
  the user checks out one and the payment is declined. The transaction is rolled back and the
  idempotency record is \<open>failed\<close>, but the release that follows picks the earlier
  reservation: it ends \<open>released\<close> and \<open>reservedQuantity\<close> ends at 0, not at its value of 2
  before the attempt.
\<close>

theorem createOrder_payment_failure_releases_other_hold:
  "\<exists>d' request rec.
     createOrder env0 shop user1 (checkout ''test_fail'' (Some key1))
       = Some (d', [request], Inl (Payment_failed (Some ''Test payment failure'')))
   \<and> inventoryReservation shop = [hold 0 2 R_reserved]
   \<and> storeInventory shop (store1, product1) = Some (stock 10 2 True)
   \<and> inventoryReservation d' = [hold 0 2 R_released]
   \<and> storeInventory d' (store1, product1) = Some (stock 10 0 True)
   \<and> idempotencyKey d' (key1, user1) = Some rec \<and> ik_status rec = I_failed"
  by (simp add: model_defs example_defs)

section \<open>Checkout: idempotency\<close>

text \<open>
  Claim C5 fails on the code. The first call under key \<open>key1\<close> returns the order read back
  after the transaction (\<open>confirmed\<close>, \<open>paid\<close>) and one payment request is sent; the second
  call changes nothing and sends none, but returns the stored response: the transaction's
  result, whose order is the row as first inserted (\<open>pending\<close>, payment \<open>pending\<close>).
\<close>

theorem createOrder_replay_differs:
  "\<exists>d1 request details stored items.
      createOrder env0 shop user1 (checkout ''card'' (Some key1))
        = Some (d1, [request], Inr (Order_details (Some details)))
    \<and> o_status (owi_order details) = O_confirmed \<and> o_paymentStatus (owi_order details) = P_paid
    \<and> createOrder env0 d1 user1 (checkout ''card'' (Some key1))
        = Some (d1, [], Inr (Replayed (Some (Response_result stored items))))
    \<and> o_id stored = o_id (owi_order details)
    \<and> o_status stored = O_pending \<and> o_paymentStatus stored = P_pending
    \<and> length (order_tbl d1) = 1"
  by (simp add: model_defs example_defs)

text \<open>
  Claim C7 as stated fails: after the checkout by card under key \<open>key1\<close>, a request to pay by
  PayPal under the same key has another fingerprint, and gets the card order's stored
  response replayed.
\<close>

theorem createOrder_replays_for_other_request:
  "\<exists>rec ord items.
      idempotencyKey settled (key1, user1) = Some rec
    \<and> ik_requestHash rec = Some ''sha-card''
    \<and> sha256_json env0 (checkout ''paypal'' (Some key1)) = ''sha-paypal''
    \<and> createOrder env0 settled user1 (checkout ''paypal'' (Some key1))
        = Some (settled, [], Inr (Replayed (Some (Response_result ord items))))
    \<and> o_paymentMethod ord = Some ''card''"
  by (simp add: settled_def model_defs example_defs)

text \<open>
  Claim C7, amended. For every checkout call whose idempotency key already has a record
  for the same userId and whose request fingerprint differs from the stored one, the
  fingerprint is not compared: a \<open>completed\<close> record's stored response is replayed with no
  write and no payment, an \<open>in_progress\<close> record gives "Order is already being processed",
  and a \<open>failed\<close> record is deleted and the attempt proceeds.
\<close>

theorem createOrder_existing_key:
  fixes d :: "'m db"
  assumes "idempotencyKey d (keyOf env data, userId) = Some existingKey"
    and "ik_requestHash existingKey \<noteq> Some (sha256_json env data)"
  shows "(ik_status existingKey = I_completed \<longrightarrow>
            createOrder env d userId data = Some (d, [], Inr (Replayed (ik_response existingKey))))
       \<and> (ik_status existingKey = I_in_progress \<longrightarrow>
            createOrder env d userId data = Some (d, [], Inl Order_already_being_processed))
       \<and> (ik_status existingKey = I_failed \<longrightarrow>
            createOrder env d userId data =
              proceed env (d\<lparr> idempotencyKey := (idempotencyKey d)((keyOf env data, userId) := None) \<rparr>)
                userId data)"
  using assms(1) by (simp add: createOrder_def)

text \<open>The PayPal request under the key of the completed card checkout: the fingerprints
  differ and the stored response is replayed.\<close>

theorem createOrder_existing_key_witness:
  "\<exists>rec. idempotencyKey settled (keyOf env0 (checkout ''paypal'' (Some key1)), user1) = Some rec
     \<and> ik_requestHash rec \<noteq> Some (sha256_json env0 (checkout ''paypal'' (Some key1)))
     \<and> ik_status rec = I_completed
     \<and> createOrder env0 settled user1 (checkout ''paypal'' (Some key1))
         = Some (settled, [], Inr (Replayed (ik_response rec)))"
proof -
  obtain rec where a: "idempotencyKey settled (keyOf env0 (checkout ''paypal'' (Some key1)), user1) = Some rec"
    and b: "ik_requestHash rec \<noteq> Some (sha256_json env0 (checkout ''paypal'' (Some key1)))"
    and c: "ik_status rec = I_completed"
    by (simp add: settled_def model_defs example_defs)
  from createOrder_existing_key[OF a b] c
  have "createOrder env0 settled user1 (checkout ''paypal'' (Some key1))
         = Some (settled, [], Inr (Replayed (ik_response rec)))"
    by simp
  with a b c show ?thesis by (intro exI conjI)
qed

section \<open>Checkout without an idempotency key\<close>

lemma updateReservation_frame:
  "updateReservation d rid st oid = (d', r) \<Longrightarrow>
     idempotencyKey d' = idempotencyKey d \<and> order_tbl d' = order_tbl d \<and> nextId d' = nextId d"
  by (auto simp: updateReservation_def releaseReservedQuantity_def setReservation_def Let_def
           split: option.splits if_splits prod.splits sum.splits dest!: incrementReserved_frame)

lemma updateReservation_error:
  "updateReservation d rid st oid = (d', Inl e) \<Longrightarrow>
     e = Reservation_not_found \<or> e = Record_to_update_not_found"
  by (auto simp: updateReservation_def releaseReservedQuantity_def Let_def
           split: option.splits if_splits prod.splits sum.splits dest!: incrementReserved_error)

lemma releaseEach_frame:
  "releaseEach d rs = (d', r) \<Longrightarrow>
     idempotencyKey d' = idempotencyKey d \<and> order_tbl d' = order_tbl d \<and> nextId d' = nextId d"
proof (induction rs arbitrary: d)
  case Nil
  then show ?case by simp
next
  case (Cons x rs)
  then show ?case
    by (auto split: prod.splits sum.splits dest!: updateReservation_frame)
qed

lemma releaseEach_error:
  "releaseEach d rs = (d', Inl e) \<Longrightarrow> e = Reservation_not_found \<or> e = Record_to_update_not_found"
proof (induction rs arbitrary: d)
  case Nil
  then show ?case by simp
next
  case (Cons x rs)
  then show ?case
    by (auto split: prod.splits sum.splits dest: updateReservation_error)
qed

lemma recordPayment_confirms:
  "ord \<in> set (order_tbl t) \<Longrightarrow>
     \<exists>x \<in> set (order_tbl (recordPayment True (o_id ord) t)).
        o_id x = o_id ord \<and> o_status x = O_confirmed \<and> o_paymentStatus x = P_paid"
  by (auto simp: recordPayment_def
           intro!: bexI[where x = "ord\<lparr> o_paymentStatus := P_paid, o_status := O_confirmed \<rparr>"])

text \<open>What a transaction that commits has done to the idempotency table (nothing), to the
  orders (one more, confirmed and paid, with an id not below the counter it started from)
  and to the payment provider (one request).\<close>

lemma checkoutTransaction_success:
  assumes "checkoutTransaction env t userId data cart = Some (t', charges, Inr result)"
  shows "idempotencyKey t' = idempotencyKey t
       \<and> nextId t \<le> o_id (fst result) \<and> o_id (fst result) < nextId t'
       \<and> o_status (fst result) = O_pending \<and> o_paymentStatus (fst result) = P_pending
       \<and> length (order_tbl t') = Suc (length (order_tbl t))
       \<and> (\<exists>x \<in> set (order_tbl t'). o_id x = o_id (fst result)
              \<and> o_status x = O_confirmed \<and> o_paymentStatus x = P_paid)
       \<and> (\<exists>request. charges = [request] \<and> pay_orderId request = o_id (fst result))"
proof -
  obtain t1 rs where r1:
    "reserveItems (date_now env) userId (co_storeId data) t (cw_items cart) = (t1, Inr rs)"
    using assms by (auto simp: checkoutTransaction_def split: prod.splits sum.splits)
  obtain orderNumber where num: "generateOrderNumber t (draws env) = Some orderNumber"
    using assms r1 by (auto simp: checkoutTransaction_def split: option.splits)
  define ord where "ord = newOrder (nextId t1) orderNumber userId data cart"
  obtain t3 its where items:
    "createOrderItems env (o_id ord) (insertOrder t1 ord) (cw_items cart) = (t3, its)"
    by (cases "createOrderItems env (o_id ord) (insertOrder t1 ord) (cw_items cart)")
  define request where "request = \<lparr> pay_amount = t_total (cw_totals cart),
           pay_paymentMethod = co_paymentMethod data, pay_orderId = o_id ord, pay_userId = userId \<rparr>"
  have out: "pr_success (processPayment env request) \<and> result = (ord, its) \<and> charges = [request]
      \<and> t' = clearCartItems (cw_id cart)
               (markUsed (map res_id rs) (o_id ord) (recordPayment True (o_id ord) t3))"
    using assms r1 num items
    by (simp add: checkoutTransaction_def Let_def ord_def[symmetric] request_def[symmetric]
          split: if_splits)
  from reserveItems_frame[OF r1] have f1: "idempotencyKey t1 = idempotencyKey t"
    "order_tbl t1 = order_tbl t" "nextId t \<le> nextId t1" by simp_all
  from createOrderItems_frame[OF items] have f3: "idempotencyKey t3 = idempotencyKey t1"
    "order_tbl t3 = order_tbl t1 @ [ord]" "Suc (nextId t1) \<le> nextId t3" by simp_all
  have "ord \<in> set (order_tbl t3)" using f3 by simp
  from recordPayment_confirms[OF this]
  have conf: "\<exists>x \<in> set (order_tbl t'). o_id x = o_id (fst result)
              \<and> o_status x = O_confirmed \<and> o_paymentStatus x = P_paid"
    using out by simp
  have "idempotencyKey t' = idempotencyKey t" using out f3 f1 by simp
  moreover have "nextId t \<le> o_id (fst result)" using out f1 by (simp add: ord_def)
  moreover have "o_id (fst result) < nextId t'" using out f3 by (simp add: ord_def)
  moreover have "o_status (fst result) = O_pending \<and> o_paymentStatus (fst result) = P_pending"
    using out by (simp add: ord_def)
  moreover have "length (order_tbl t') = Suc (length (order_tbl t))" using out f3 f1 by simp
  moreover have "\<exists>request. charges = [request] \<and> pay_orderId request = o_id (fst result)"
    using out by (simp add: request_def)
  ultimately show ?thesis using conf by blast
qed

lemma checkoutTransaction_error:
  "checkoutTransaction env t userId data cart = Some (t', charges, Inl e) \<Longrightarrow>
     e = Record_to_update_not_found \<or> (\<exists>m. e = Payment_failed m)"
  by (auto simp: checkoutTransaction_def Let_def
           split: if_splits option.splits prod.splits sum.splits dest: reserveItems_error)

lemma attempt_success:
  "attempt env d userId data = Some (d', charges, Inr result) \<Longrightarrow>
     \<exists>cart. checkoutTransaction env d userId data cart = Some (d', charges, Inr result)"
  by (auto simp: attempt_def Let_def split: if_splits option.splits prod.splits sum.splits)

text \<open>An attempt that fails leaves the database it started from.\<close>

lemma attempt_error:
  "attempt env d userId data = Some (d', charges, Inl e) \<Longrightarrow>
     d' = d \<and> e \<noteq> Order_already_being_processed"
  by (auto simp: attempt_def Let_def
           split: if_splits option.splits prod.splits sum.splits dest: checkoutTransaction_error)

lemma proceed_failure:
  fixes d :: "'m db"
  assumes "proceed env d userId data = Some (d', charges, Inl e)"
  shows "e \<noteq> Order_already_being_processed
       \<and> (\<exists>e0. idempotencyKey d' = (idempotencyKey d)((keyOf env data, userId) \<mapsto>
             \<lparr> ik_id = nextId d, ik_status = I_failed,
               ik_requestHash = Some (sha256_json env data), ik_response = Some (Response_error e0) \<rparr>))
       \<and> order_tbl d' = order_tbl d \<and> nextId d' = Suc (nextId d)"
proof -
  let ?k = "(keyOf env data, userId)"
  let ?rec = "\<lparr> ik_id = nextId d, ik_status = I_in_progress,
                ik_requestHash = Some (sha256_json env data), ik_response = None \<rparr> :: 'm idempotency_key"
  let ?d1 = "d\<lparr> idempotencyKey := (idempotencyKey d)(?k \<mapsto> ?rec), nextId := Suc (nextId d) \<rparr>"
  obtain d2 e0 where att: "attempt env ?d1 userId data = Some (d2, charges, Inl e0)"
    using assms
    by (auto simp: proceed_def Let_def split: option.splits prod.splits sum.splits)
  from attempt_error[OF att] have d2: "d2 = ?d1" and e0: "e0 \<noteq> Order_already_being_processed"
    by simp_all
  obtain d4 r4 where rel: "releaseReservationsForFailedOrder
        (finishIdempotency ?d1 ?k ?rec I_failed (Response_error e0)) userId (co_storeId data) = (d4, r4)"
    by (cases "releaseReservationsForFailedOrder
        (finishIdempotency ?d1 ?k ?rec I_failed (Response_error e0)) userId (co_storeId data)")
  from rel have fr:
      "idempotencyKey d4 = idempotencyKey (finishIdempotency ?d1 ?k ?rec I_failed (Response_error e0))"
      "order_tbl d4 = order_tbl d" "nextId d4 = Suc (nextId d)"
    by (auto simp: releaseReservationsForFailedOrder_def finishIdempotency_def dest!: releaseEach_frame)
  have out: "d' = d4 \<and> (e = e0 \<or> e = Reservation_not_found \<or> e = Record_to_update_not_found)"
    using assms att d2 rel
    by (cases r4)
       (auto simp: proceed_def Let_def releaseReservationsForFailedOrder_def dest: releaseEach_error)
  then show ?thesis using fr e0 by (auto simp: finishIdempotency_def)
qed

lemma proceed_success:
  fixes d :: "'m db"
  assumes "proceed env d userId data = Some (d', charges, Inr r)"
  shows "\<exists>ord items.
           r = Order_details (getOrderById d' (o_id ord))
         \<and> idempotencyKey d' = (idempotencyKey d)((keyOf env data, userId) \<mapsto>
             \<lparr> ik_id = nextId d, ik_status = I_completed,
               ik_requestHash = Some (sha256_json env data),
               ik_response = Some (Response_result ord items) \<rparr>)
         \<and> nextId d < o_id ord \<and> o_id ord < nextId d'
         \<and> o_status ord = O_pending \<and> o_paymentStatus ord = P_pending
         \<and> length (order_tbl d') = Suc (length (order_tbl d))
         \<and> (\<exists>x \<in> set (order_tbl d'). o_id x = o_id ord
                \<and> o_status x = O_confirmed \<and> o_paymentStatus x = P_paid)
         \<and> (\<exists>request. charges = [request] \<and> pay_orderId request = o_id ord)"
proof -
  let ?k = "(keyOf env data, userId)"
  let ?rec = "\<lparr> ik_id = nextId d, ik_status = I_in_progress,
                ik_requestHash = Some (sha256_json env data), ik_response = None \<rparr> :: 'm idempotency_key"
  let ?d1 = "d\<lparr> idempotencyKey := (idempotencyKey d)(?k \<mapsto> ?rec), nextId := Suc (nextId d) \<rparr>"
  obtain d2 result where att: "attempt env ?d1 userId data = Some (d2, charges, Inr result)"
    and d': "d' = finishIdempotency d2 ?k ?rec I_completed (Response_result (fst result) (snd result))"
    and r: "r = Order_details (getOrderById d' (o_id (fst result)))"
    using assms
    by (auto simp: proceed_def Let_def split: option.splits prod.splits sum.splits)
  from attempt_success[OF att] obtain cart
    where tx: "checkoutTransaction env ?d1 userId data cart = Some (d2, charges, Inr result)" ..
  from checkoutTransaction_success[OF tx] d' r show ?thesis
    by (intro exI[where x = "fst result"] exI[where x = "snd result"])
       (auto simp: finishIdempotency_def)
qed

lemma proceed_no_replay:
  "proceed env d userId data = Some (d', charges, out) \<Longrightarrow> out \<noteq> Inr (Replayed x)"
  by (auto simp: proceed_def Let_def split: option.splits prod.splits sum.splits)

lemma createOrder_fresh:
  "idempotencyKey d (keyOf env data, userId) = None \<Longrightarrow>
     createOrder env d userId data = proceed env d userId data"
  by (simp add: createOrder_def)

lemma proceed_record:
  fixes d :: "'m db"
  assumes "proceed env d userId data = Some (d', charges, out)"
  shows "\<exists>rec. idempotencyKey d' = (idempotencyKey d)((keyOf env data, userId) \<mapsto> rec)
       \<and> nextId d < nextId d'"
proof (cases out)
  case (Inl e)
  with proceed_failure[of env d userId data d' charges e] assms show ?thesis by auto
next
  case (Inr r)
  with proceed_success[of env d userId data d' charges r] assms show ?thesis by auto
qed

lemma proceed_no_conflict:
  fixes d :: "'m db"
  assumes "proceed env d userId data = Some (d', charges, out)"
  shows "out \<noteq> Inl Order_already_being_processed \<and> (\<forall>x. out \<noteq> Inr (Replayed x))"
proof (cases out)
  case (Inl e)
  with proceed_failure[of env d userId data d' charges e] assms show ?thesis by auto
next
  case (Inr r)
  with proceed_no_replay[OF assms] show ?thesis by auto
qed

text \<open>A first call that succeeds under a key with no record, then a second call under
  the same key: one order and one payment request in all, the second call writes nothing,
  and what it returns is the stored transaction result, not what the first call returned.\<close>

lemma createOrder_then_replay:
  fixes d :: "'m db"
  assumes "idempotencyKey d (keyOf env data, userId) = None"
    and "createOrder env d userId data = Some (d1, charges1, Inr r1)"
    and "keyOf env' data = keyOf env data"
  shows "\<exists>ord items.
           r1 = Order_details (getOrderById d1 (o_id ord))
         \<and> o_status ord = O_pending \<and> o_paymentStatus ord = P_pending
         \<and> createOrder env' d1 userId data
               = Some (d1, [], Inr (Replayed (Some (Response_result ord items))))
         \<and> length charges1 = 1 \<and> length (order_tbl d1) = Suc (length (order_tbl d))"
proof -
  have p: "proceed env d userId data = Some (d1, charges1, Inr r1)"
    using assms(1,2) by (simp add: createOrder_fresh)
  from proceed_success[OF p] obtain ord items where s:
    "r1 = Order_details (getOrderById d1 (o_id ord))"
    "idempotencyKey d1 = (idempotencyKey d)((keyOf env data, userId) \<mapsto>
             \<lparr> ik_id = nextId d, ik_status = I_completed,
               ik_requestHash = Some (sha256_json env data),
               ik_response = Some (Response_result ord items) \<rparr>)"
    "o_status ord = O_pending" "o_paymentStatus ord = P_pending"
    "length (order_tbl d1) = Suc (length (order_tbl d))"
    "\<exists>request. charges1 = [request] \<and> pay_orderId request = o_id ord"
    by blast
  have "createOrder env' d1 userId data
          = Some (d1, [], Inr (Replayed (Some (Response_result ord items))))"
    using s(2) assms(3) by (simp add: createOrder_def)
  with s show ?thesis by auto
qed

text \<open>
  Claim C10. Two checkout calls by the same user with the same request and no idempotency
  key: each takes the UUID drawn for it as its key. The draws are fresh (no record exists
  under them when the call starts), and between the calls the idempotency records and the
  orders are untouched and the id counter does not go back (the user may refill the cart).
  Then the two keys differ; neither call ends in "Order is already being processed" nor in
  a replay; and when both succeed, each returns the order it read back, each has its own
  \<open>completed\<close> idempotency record holding its own order, the two orders have different
  ids, two orders were added and each call sent one payment request.
\<close>

theorem createOrder_without_key:
  fixes d d1 d1' d2 :: "'m db"
  assumes nokey: "co_idempotencyKey data = None"
    and fresh1: "idempotencyKey d (randomUUID env1, userId) = None"
    and run1: "createOrder env1 d userId data = Some (d1, charges1, out1)"
    and between: "idempotencyKey d1' = idempotencyKey d1" "order_tbl d1' = order_tbl d1"
      "nextId d1 \<le> nextId d1'"
    and fresh2: "idempotencyKey d1' (randomUUID env2, userId) = None"
    and run2: "createOrder env2 d1' userId data = Some (d2, charges2, out2)"
  shows "keyOf env1 data = randomUUID env1 \<and> keyOf env2 data = randomUUID env2
       \<and> randomUUID env1 \<noteq> randomUUID env2
       \<and> out1 \<noteq> Inl Order_already_being_processed \<and> (\<forall>x. out1 \<noteq> Inr (Replayed x))
       \<and> out2 \<noteq> Inl Order_already_being_processed \<and> (\<forall>x. out2 \<noteq> Inr (Replayed x))
       \<and> (\<forall>r1 r2. out1 = Inr r1 \<and> out2 = Inr r2 \<longrightarrow>
            (\<exists>ord1 items1 ord2 items2 rec1 rec2.
                r1 = Order_details (getOrderById d1 (o_id ord1))
              \<and> r2 = Order_details (getOrderById d2 (o_id ord2))
              \<and> idempotencyKey d2 (randomUUID env1, userId) = Some rec1
              \<and> ik_status rec1 = I_completed \<and> ik_response rec1 = Some (Response_result ord1 items1)
              \<and> idempotencyKey d2 (randomUUID env2, userId) = Some rec2
              \<and> ik_status rec2 = I_completed \<and> ik_response rec2 = Some (Response_result ord2 items2)
              \<and> ik_id rec1 \<noteq> ik_id rec2
              \<and> o_id ord1 \<noteq> o_id ord2
              \<and> length (order_tbl d2) = length (order_tbl d) + 2
              \<and> length charges1 = 1 \<and> length charges2 = 1))"
proof -
  have k1: "keyOf env1 data = randomUUID env1" and k2: "keyOf env2 data = randomUUID env2"
    using nokey by (simp_all add: keyOf_def)
  have p1: "proceed env1 d userId data = Some (d1, charges1, out1)"
    using run1 fresh1 k1 by (simp add: createOrder_fresh)
  have p2: "proceed env2 d1' userId data = Some (d2, charges2, out2)"
    using run2 fresh2 k2 by (simp add: createOrder_fresh)
  from proceed_record[OF p1] k1 obtain rec where
    tbl1: "idempotencyKey d1 = (idempotencyKey d)((randomUUID env1, userId) \<mapsto> rec)" by auto
  have distinct: "randomUUID env1 \<noteq> randomUUID env2"
    using fresh2 between(1) tbl1 by auto
  have pair: "\<exists>ord1 items1 ord2 items2 rec1 rec2.
                r1 = Order_details (getOrderById d1 (o_id ord1))
              \<and> r2 = Order_details (getOrderById d2 (o_id ord2))
              \<and> idempotencyKey d2 (randomUUID env1, userId) = Some rec1
              \<and> ik_status rec1 = I_completed \<and> ik_response rec1 = Some (Response_result ord1 items1)
              \<and> idempotencyKey d2 (randomUUID env2, userId) = Some rec2
              \<and> ik_status rec2 = I_completed \<and> ik_response rec2 = Some (Response_result ord2 items2)
              \<and> ik_id rec1 \<noteq> ik_id rec2
              \<and> o_id ord1 \<noteq> o_id ord2
              \<and> length (order_tbl d2) = length (order_tbl d) + 2
              \<and> length charges1 = 1 \<and> length charges2 = 1"
    if ok: "out1 = Inr r1" "out2 = Inr r2" for r1 r2
  proof -
    from proceed_success[of env1 d userId data d1 charges1 r1] p1 ok(1) k1
    obtain ord1 items1 where s1:
      "r1 = Order_details (getOrderById d1 (o_id ord1))"
      "idempotencyKey d1 = (idempotencyKey d)((randomUUID env1, userId) \<mapsto>
             \<lparr> ik_id = nextId d, ik_status = I_completed,
               ik_requestHash = Some (sha256_json env1 data),
               ik_response = Some (Response_result ord1 items1) \<rparr>)"
      "nextId d < o_id ord1" "o_id ord1 < nextId d1"
      "length (order_tbl d1) = Suc (length (order_tbl d))"
      "\<exists>request. charges1 = [request] \<and> pay_orderId request = o_id ord1"
      by auto
    from proceed_success[of env2 d1' userId data d2 charges2 r2] p2 ok(2) k2
    obtain ord2 items2 where s2:
      "r2 = Order_details (getOrderById d2 (o_id ord2))"
      "idempotencyKey d2 = (idempotencyKey d1')((randomUUID env2, userId) \<mapsto>
             \<lparr> ik_id = nextId d1', ik_status = I_completed,
               ik_requestHash = Some (sha256_json env2 data),
               ik_response = Some (Response_result ord2 items2) \<rparr>)"
      "nextId d1' < o_id ord2" "o_id ord2 < nextId d2"
      "length (order_tbl d2) = Suc (length (order_tbl d1'))"
      "\<exists>request. charges2 = [request] \<and> pay_orderId request = o_id ord2"
      by auto
    let ?rec1 = "\<lparr> ik_id = nextId d, ik_status = I_completed,
               ik_requestHash = Some (sha256_json env1 data),
               ik_response = Some (Response_result ord1 items1) \<rparr> :: 'm idempotency_key"
    let ?rec2 = "\<lparr> ik_id = nextId d1', ik_status = I_completed,
               ik_requestHash = Some (sha256_json env2 data),
               ik_response = Some (Response_result ord2 items2) \<rparr> :: 'm idempotency_key"
    have a: "idempotencyKey d2 (randomUUID env1, userId) = Some ?rec1"
      using s1(2) s2(2) between(1) distinct by simp
    have b: "idempotencyKey d2 (randomUUID env2, userId) = Some ?rec2"
      using s2(2) by simp
    have c: "ik_id ?rec1 \<noteq> ik_id ?rec2" using s1(3,4) between(3) by simp
    have e: "o_id ord1 \<noteq> o_id ord2" using s1(4) s2(3) between(3) by simp
    have f: "length (order_tbl d2) = length (order_tbl d) + 2" using s1(5) s2(5) between(2) by simp
    have g: "length charges1 = 1 \<and> length charges2 = 1" using s1(6) s2(6) by auto
    show ?thesis
      apply (rule exI[where x = ord1], rule exI[where x = items1])
      apply (rule exI[where x = ord2], rule exI[where x = items2])
      apply (rule exI[where x = ?rec1], rule exI[where x = ?rec2])
      using s1(1) s2(1) a b c e f g by simp
  qed
  from proceed_no_conflict[OF p1] proceed_no_conflict[OF p2] k1 k2 distinct pair
  show ?thesis by blast
qed

text \<open>The user checks out \<open>shop\<close> by card with no key, puts one of the product into the
  cart again and checks out again with no key: both calls succeed, each under the UUID
  drawn for it.\<close>

theorem createOrder_without_key_witness:
  "co_idempotencyKey (checkout ''card'' None) = None
   \<and> idempotencyKey shop (randomUUID env0, user1) = None
   \<and> (\<exists>d1 c1 r1 d2 c2 r2.
         createOrder env0 shop user1 (checkout ''card'' None) = Some (d1, c1, Inr r1)
       \<and> createOrder env_next (refill d1) user1 (checkout ''card'' None) = Some (d2, c2, Inr r2)
       \<and> randomUUID env0 \<noteq> randomUUID env_next
       \<and> length (order_tbl d2) = length (order_tbl shop) + 2
       \<and> length c1 = 1 \<and> length c2 = 1)"
proof -
  let ?data = "checkout ''card'' None"
  have nokey: "co_idempotencyKey ?data = None" by (simp add: checkout_def)
  have fresh1: "idempotencyKey shop (randomUUID env0, user1) = None"
    by (simp add: example_defs)
  have "\<exists>d1 c1 r1. createOrder env0 shop user1 ?data = Some (d1, c1, Inr r1)
          \<and> idempotencyKey (refill d1) = idempotencyKey d1
          \<and> order_tbl (refill d1) = order_tbl d1
          \<and> nextId d1 \<le> nextId (refill d1)
          \<and> idempotencyKey (refill d1) (randomUUID env_next, user1) = None
          \<and> (\<exists>d2 c2 r2. createOrder env_next (refill d1) user1 ?data = Some (d2, c2, Inr r2))"
    by (simp add: model_defs example_defs)
  then obtain d1 c1 r1 d2 c2 r2 where
    run1: "createOrder env0 shop user1 ?data = Some (d1, c1, Inr r1)"
    and between: "idempotencyKey (refill d1) = idempotencyKey d1" "order_tbl (refill d1) = order_tbl d1"
      "nextId d1 \<le> nextId (refill d1)"
    and fresh2: "idempotencyKey (refill d1) (randomUUID env_next, user1) = None"
    and run2: "createOrder env_next (refill d1) user1 ?data = Some (d2, c2, Inr r2)"
    by blast
  from createOrder_without_key[OF nokey fresh1 run1 between fresh2 run2]
  have "randomUUID env0 \<noteq> randomUUID env_next
      \<and> length (order_tbl d2) = length (order_tbl shop) + 2 \<and> length c1 = 1 \<and> length c2 = 1"
    by auto
  with nokey fresh1 run1 run2 show ?thesis by blast
qed

section \<open>Cart totals in JavaScript numbers\<close>

subsection \<open>The rounding error of a double\<close>

lemma bitlength_bounds: "0 < n \<Longrightarrow> 2 ^ (bitlength n - 1) \<le> n \<and> n < 2 ^ bitlength n"
proof (induction n rule: bitlength.induct)
  case (1 n)
  show ?case
  proof (cases "n div 2 = 0")
    case True
    with 1 have "n = 1" by (auto simp: div_eq_0_iff)
    then show ?thesis by (simp add: bitlength.simps)
  next
    case False
    with 1 have ih: "2 ^ (bitlength (n div 2) - 1) \<le> n div 2" "n div 2 < 2 ^ bitlength (n div 2)"
      by auto
    have pos: "0 < bitlength (n div 2)" using False by (simp add: bitlength.simps[of "n div 2"])
    have b: "bitlength n = Suc (bitlength (n div 2))" using 1 by (simp add: bitlength.simps[of n])
    have "2 ^ (bitlength n - 1) = 2 * 2 ^ (bitlength (n div 2) - 1)"
      using b pos by (cases "bitlength (n div 2)") simp_all
    also have "\<dots> \<le> 2 * (n div 2)" using ih(1) by simp
    also have "\<dots> \<le> n" by simp
    finally have lo: "2 ^ (bitlength n - 1) \<le> n" .
    have "n < 2 * (n div 2) + 2" by presburger
    also have "\<dots> \<le> 2 * 2 ^ bitlength (n div 2)" using ih(2) by simp
    finally have "n < 2 ^ bitlength n" using b by simp
    with lo show ?thesis by simp
  qed
qed

lemma pow2_powr: "pow2 e = 2 powr real_of_int e"
proof (cases "0 \<le> e")
  case True
  have "(2::real) ^ nat e = 2 powr real (nat e)" by (simp only: powr_realpow zero_less_numeral)
  also have "real (nat e) = real_of_int e" using True by simp
  finally show ?thesis using True by (simp add: pow2_def)
next
  case False
  have "(2::real) ^ nat (- e) = 2 powr real (nat (- e))"
    by (simp only: powr_realpow zero_less_numeral)
  also have "real (nat (- e)) = - real_of_int e" using False by simp
  finally have "1 / (2::real) ^ nat (- e) = 2 powr real_of_int e"
    by (simp add: powr_minus divide_inverse)
  then show ?thesis using False by (simp add: pow2_def)
qed

lemma pow2_pos: "0 < pow2 e"
  by (simp add: pow2_powr)

lemma pow2_add: "pow2 (a + b) = pow2 a * pow2 b"
  by (simp add: pow2_powr powr_add)

lemma pow2_mono: "a \<le> b \<Longrightarrow> pow2 a \<le> pow2 b"
  by (simp add: pow2_powr)

lemma pow2_less_iff: "pow2 a < pow2 b \<longleftrightarrow> a < b"
  by (simp add: pow2_powr)

lemma real_pow2_le: "(2::nat) ^ b \<le> k \<Longrightarrow> (2::real) ^ b \<le> real k"
  using of_nat_mono[of "2 ^ b" k, where ?'a = real] by simp

lemma real_less_pow2: "k < (2::nat) ^ b \<Longrightarrow> real k + 1 \<le> 2 ^ b"
  using of_nat_mono[of "Suc k" "2 ^ b", where ?'a = real] by simp

lemma ilog2_bounds:
  assumes "0 < x"
  shows "pow2 (ilog2 x) \<le> x \<and> x < pow2 (ilog2 x + 1)"
proof (cases "1 \<le> x")
  case True
  define k where "k = nat \<lfloor>x\<rfloor>"
  have kpos: "0 < k" using True by (simp add: k_def)
  have kx: "real k \<le> x" "x < real k + 1" using True by (simp_all add: k_def)
  from bitlength_bounds[OF kpos]
  have b: "2 ^ (bitlength k - 1) \<le> k" "k < 2 ^ bitlength k" by simp_all
  have bpos: "0 < bitlength k" using kpos by (simp add: bitlength.simps[of k])
  have il: "ilog2 x = int (bitlength k) - 1" using True by (simp add: ilog2_def k_def)
  have p1: "pow2 (ilog2 x) = 2 ^ (bitlength k - 1)"
    using bpos by (simp add: il pow2_def nat_diff_distrib')
  have p2: "pow2 (ilog2 x + 1) = 2 ^ bitlength k"
    by (simp add: il pow2_def)
  have "(2::real) ^ (bitlength k - 1) \<le> real k"
    using b(1) by (rule real_pow2_le)
  moreover have "real k + 1 \<le> 2 ^ bitlength k"
    using b(2) by (rule real_less_pow2)
  ultimately show ?thesis using kx p1 p2 by linarith
next
  case False
  with assms have x1: "x < 1" by simp
  define y where "y = 1 / x"
  have y1: "1 < y" using assms x1 by (simp add: y_def)
  define c where "c = nat (\<lceil>y\<rceil> - 1)"
  have c2: "2 \<le> \<lceil>y\<rceil>" using y1 by linarith
  have cpos: "0 < c" using c2 by (simp add: c_def)
  have "real c = real_of_int \<lceil>y\<rceil> - 1" using c2 by (simp add: c_def)
  then have cy: "real c < y" "y \<le> real c + 1"
    by linarith+
  from bitlength_bounds[OF cpos]
  have b: "2 ^ (bitlength c - 1) \<le> c" "c < 2 ^ bitlength c" by simp_all
  have bpos: "0 < bitlength c" using cpos by (simp add: bitlength.simps[of c])
  have il: "ilog2 x = - int (bitlength c)" using False by (simp add: ilog2_def c_def y_def)
  have p1: "pow2 (ilog2 x) = 1 / 2 ^ bitlength c"
    using bpos by (simp add: il pow2_def)
  have p2: "pow2 (ilog2 x + 1) = 1 / 2 ^ (bitlength c - 1)"
    using bpos by (cases "bitlength c") (simp_all add: il pow2_def)
  have lo: "(2::real) ^ (bitlength c - 1) \<le> real c"
    using b(1) by (rule real_pow2_le)
  have hi: "real c + 1 \<le> 2 ^ bitlength c"
    using b(2) by (rule real_less_pow2)
  have "y \<le> 2 ^ bitlength c" using cy hi by linarith
  then have a: "1 / 2 ^ bitlength c \<le> x"
    using assms by (simp add: y_def field_simps)
  have "2 ^ (bitlength c - 1) < y" using cy lo by linarith
  then have "x < 1 / 2 ^ (bitlength c - 1)"
    using assms by (simp add: y_def field_simps)
  with a p1 p2 show ?thesis by simp
qed

lemma rne_err: "\<bar>real_of_int (rne x) - x\<bar> \<le> 1 / 2"
  unfolding rne_def Let_def by (auto simp: abs_le_iff)

lemma fl_err:
  assumes "pow2 (- 1022) \<le> \<bar>x\<bar>"
  shows "\<bar>fl x - x\<bar> \<le> \<bar>x\<bar> / 2 ^ 53"
proof -
  have pos: "0 < \<bar>x\<bar>" using assms pow2_pos[of "- 1022"] by linarith
  then have nz: "x \<noteq> 0" by auto
  from ilog2_bounds[OF pos] have lo: "pow2 (ilog2 \<bar>x\<bar>) \<le> \<bar>x\<bar>"
    and hi: "\<bar>x\<bar> < pow2 (ilog2 \<bar>x\<bar> + 1)" by simp_all
  have "pow2 (- 1022) < pow2 (ilog2 \<bar>x\<bar> + 1)" using assms hi by linarith
  then have "- 1022 < ilog2 \<bar>x\<bar> + 1" by (simp add: pow2_less_iff)
  then have e: "max (ilog2 \<bar>x\<bar> - 52) (- 1074) = ilog2 \<bar>x\<bar> - 52" by simp
  define e where "e = ilog2 \<bar>x\<bar> - 52"
  have fle: "fl x = real_of_int (rne (x / pow2 e)) * pow2 e"
    using nz e by (simp add: fl_def Let_def e_def)
  have "fl x - x = (real_of_int (rne (x / pow2 e)) - x / pow2 e) * pow2 e"
    using pow2_pos[of e] by (simp add: fle field_simps)
  then have "\<bar>fl x - x\<bar> = \<bar>real_of_int (rne (x / pow2 e)) - x / pow2 e\<bar> * pow2 e"
    using pow2_pos[of e] by (simp add: abs_mult)
  also have "\<dots> \<le> 1 / 2 * pow2 e"
    using rne_err[of "x / pow2 e"] pow2_pos[of e] by (intro mult_right_mono) simp_all
  also have "pow2 e = pow2 (ilog2 \<bar>x\<bar>) / 2 ^ 52"
  proof -
    have "pow2 (ilog2 \<bar>x\<bar>) = pow2 (e + 52)" by (simp add: e_def)
    also have "\<dots> = pow2 e * 2 ^ 52" by (simp add: pow2_add) (simp add: pow2_def)
    finally show ?thesis by simp
  qed
  also have "1 / 2 * (pow2 (ilog2 \<bar>x\<bar>) / 2 ^ 52) \<le> \<bar>x\<bar> / 2 ^ 53"
    using lo by simp
  finally show ?thesis .
qed

lemma cents_recovered:
  assumes "\<bar>n\<bar> < 2 ^ 52"
  shows "\<lfloor>fl (real_of_int n / 100) * 100 + 1 / 2\<rfloor> = n"
proof (cases "n = 0")
  case True
  then show ?thesis by (simp add: fl_def)
next
  case False
  let ?x = "real_of_int n / 100"
  have "1 \<le> \<bar>real_of_int n\<bar>" using False by linarith
  then have "1 / 100 \<le> \<bar>?x\<bar>" by simp
  moreover have "pow2 (- 1022) \<le> 1 / 100" by (simp add: pow2_def)
  ultimately have big: "pow2 (- 1022) \<le> \<bar>?x\<bar>" by linarith
  have "real_of_int \<bar>n\<bar> < real_of_int (2 ^ 52)" using assms by (simp only: of_int_less_iff)
  then have nb: "\<bar>real_of_int n\<bar> < 2 ^ 52" by simp
  have eq: "fl ?x * 100 - real_of_int n = (fl ?x - ?x) * 100" by simp
  have "\<bar>fl ?x * 100 - real_of_int n\<bar> = \<bar>(fl ?x - ?x) * 100\<bar>" by (simp only: eq)
  also have "\<dots> = \<bar>fl ?x - ?x\<bar> * 100" by (simp only: abs_mult abs_numeral)
  also from fl_err[OF big] have "\<dots> \<le> \<bar>real_of_int n\<bar> / 2 ^ 53" by simp
  also have "\<dots> < 1 / 2" using nb by simp
  finally have "\<bar>fl ?x * 100 - real_of_int n\<bar> < 1 / 2" .
  then have "real_of_int n \<le> fl ?x * 100 + 1 / 2" "fl ?x * 100 + 1 / 2 < real_of_int n + 1"
    by linarith+
  then show ?thesis by (rule floor_unique)
qed

text \<open>An amount of fewer than \<open>2 ^ 52\<close> hundredths is recovered from the double nearest to
  it; a larger one stays large.\<close>

lemma cents_far:
  assumes "2 ^ 52 \<le> \<bar>m\<bar>"
  shows "2 ^ 52 - 1 \<le> \<bar>cents_of (fl (real_of_int m / 100))\<bar>"
proof -
  let ?x = "real_of_int m / 100"
  let ?f = "fl ?x * 100"
  have "real_of_int (2 ^ 52) \<le> real_of_int \<bar>m\<bar>" using assms by (simp only: of_int_le_iff)
  then have mb: "2 ^ 52 \<le> \<bar>real_of_int m\<bar>" by simp
  then have "1 / 100 \<le> \<bar>?x\<bar>" by simp
  moreover have "pow2 (- 1022) \<le> 1 / 100" by (simp add: pow2_def)
  ultimately have big: "pow2 (- 1022) \<le> \<bar>?x\<bar>" by linarith
  have eq: "?f - real_of_int m = (fl ?x - ?x) * 100" by simp
  have "\<bar>?f - real_of_int m\<bar> = \<bar>(fl ?x - ?x) * 100\<bar>" by (simp only: eq)
  also have "\<dots> = \<bar>fl ?x - ?x\<bar> * 100" by (simp only: abs_mult abs_numeral)
  also from fl_err[OF big] have "\<dots> \<le> \<bar>real_of_int m\<bar> / 2 ^ 53" by simp
  finally have err: "\<bar>?f - real_of_int m\<bar> \<le> \<bar>real_of_int m\<bar> / 2 ^ 53" .
  define d where "d = \<bar>real_of_int m\<bar> / 2 ^ 53"
  from err have two: "real_of_int m - d \<le> ?f" "?f \<le> real_of_int m + d"
    unfolding d_def by linarith+
  have p: "(2::int) ^ 52 - 1 = 4503599627370495" by simp
  show ?thesis
  proof (cases "0 \<le> m")
    case True
    then have "d = real_of_int m / 9007199254740992" by (simp add: d_def)
    moreover have "4503599627370496 \<le> real_of_int m" using mb True by simp
    ultimately have "4503599627370496 \<le> ?f + 1 / 2" using two(1) by linarith
    then have "real_of_int 4503599627370496 \<le> ?f + 1 / 2" by simp
    then have "4503599627370496 \<le> \<lfloor>?f + 1 / 2\<rfloor>" by (simp only: le_floor_iff)
    then show ?thesis unfolding cents_of_def p by linarith
  next
    case False
    then have "d = - real_of_int m / 9007199254740992" by (simp add: d_def)
    moreover have "real_of_int m \<le> - 4503599627370496" using mb False by simp
    ultimately have "?f + 1 / 2 < - 4503599627370494" using two(2) by linarith
    then have "?f + 1 / 2 < real_of_int (- 4503599627370494)" by simp
    then have "\<lfloor>?f + 1 / 2\<rfloor> < - 4503599627370494" by (simp only: floor_less_iff)
    then show ?thesis unfolding cents_of_def p by linarith
  qed
qed

lemma round2_exact:
  assumes "round2 x = Some v" and "\<bar>cents_of v\<bar> < 2 ^ 52 - 1"
  shows "v = fl (real_of_int (cents_of v) / 100)"
proof -
  from assms(1) obtain y where "fdiv (Math_round y) 100 = Some v"
    by (auto simp: round2_def bind_eq_Some_conv)
  then have v: "v = fl (real_of_int \<lfloor>y + 1 / 2\<rfloor> / 100)"
    by (auto simp: fdiv_def num_def Math_round_def split: if_splits)
  define m where "m = \<lfloor>y + 1 / 2\<rfloor>"
  have "\<bar>m\<bar> < 2 ^ 52"
  proof (rule ccontr)
    assume "\<not> \<bar>m\<bar> < 2 ^ 52"
    then have "2 ^ 52 \<le> \<bar>m\<bar>" by simp
    from cents_far[OF this] assms(2) v show False by (simp add: m_def)
  qed
  from cents_recovered[OF this] have "cents_of v = m" using v by (simp add: cents_of_def m_def)
  then show ?thesis using v by (simp add: m_def)
qed

subsection \<open>The totals of one product at 5.00\<close>

text \<open>The function is evaluated operation by operation, as the source performs them.\<close>

lemmas fl_eval = fl_def ilog2_def rne_def pow2_def bitlength.simps Let_def

lemma price_5_00: "Number_of_decimal 500 = Some 5"
  by (simp add: Number_of_decimal_def num_def fl_eval)

lemma line_5_00: "num 1 = Some 1" "fmul 5 1 = Some 5" "fadd 0 5 = Some 5"
  by (simp_all add: fmul_def fadd_def num_def fl_eval)

lemma literals: "fl (17 / 200) = 6124895493223875 / 72057594037927936"
  "fl (299 / 100) = 1683220360729723 / 562949953421312"
  by (simp_all add: fl_eval)

lemma tax_5_00:
  "fmul 5 (6124895493223875 / 72057594037927936) = Some (1914029841632461 / 4503599627370496)"
  by (simp add: fmul_def num_def fl_eval)

lemma plus_tax_5_00:
  "fadd 5 (1914029841632461 / 4503599627370496) = Some (6108006994621235 / 1125899906842624)"
  by (simp add: fadd_def num_def fl_eval)

lemma plus_fee_5_00:
  "fadd (6108006994621235 / 1125899906842624) (1683220360729723 / 562949953421312)
     = Some (1184305964510085 / 140737488355328)"
  by (simp add: fadd_def num_def fl_eval)

lemma minus_discount_5_00:
  "fsub (1184305964510085 / 140737488355328) 0 = Some (1184305964510085 / 140737488355328)"
  by (simp add: fsub_def num_def fl_eval)

lemma round2_subtotal: "round2 5 = Some 5"
proof -
  have a: "fmul 5 100 = Some 500"
    by (simp add: fmul_def num_def fl_eval)
  have b: "Math_round 500 = 500"
    by (simp add: Math_round_def)
  have c: "fdiv 500 100 = Some 5"
    by (simp add: fdiv_def num_def fl_eval)
  show ?thesis by (simp add: round2_def a b c)
qed

lemma round2_zero: "round2 0 = Some 0"
  by (simp add: round2_def fmul_def fdiv_def num_def Math_round_def fl_def)

lemma round2_tax:
  "round2 (1914029841632461 / 4503599627370496) = Some (7746191359077253 / 18014398509481984)"
proof -
  have a: "fmul (1914029841632461 / 4503599627370496) 100 = Some (5981343255101441 / 140737488355328)"
    by (simp add: fmul_def num_def fl_eval)
  have b: "Math_round (5981343255101441 / 140737488355328) = 43"
    by (simp add: Math_round_def)
  have c: "fdiv 43 100 = Some (7746191359077253 / 18014398509481984)"
    by (simp add: fdiv_def num_def fl_eval)
  show ?thesis by (simp add: round2_def a b c)
qed

lemma round2_fee:
  "round2 (1683220360729723 / 562949953421312) = Some (1683220360729723 / 562949953421312)"
proof -
  have a: "fmul (1683220360729723 / 562949953421312) 100 = Some 299"
    by (simp add: fmul_def num_def fl_eval)
  have b: "Math_round 299 = 299"
    by (simp add: Math_round_def)
  have c: "fdiv 299 100 = Some (1683220360729723 / 562949953421312)"
    by (simp add: fdiv_def num_def fl_eval)
  show ?thesis by (simp add: round2_def a b c)
qed

text \<open>The unrounded total is a little below 8.415, so that \<open>Math.round\<close> of its hundredfold
  is 841.\<close>

lemma round2_total:
  "round2 (1184305964510085 / 140737488355328) = Some (2367204554136617 / 281474976710656)"
proof -
  have a: "fmul (1184305964510085 / 140737488355328) 100 = Some (7401912278188031 / 8796093022208)"
    by (simp add: fmul_def num_def fl_eval)
  have b: "Math_round (7401912278188031 / 8796093022208) = 841"
    by (simp add: Math_round_def)
  have c: "fdiv 841 100 = Some (2367204554136617 / 281474976710656)"
    by (simp add: fdiv_def num_def fl_eval)
  show ?thesis by (simp add: round2_def a b c)
qed

lemma totals_5_00: "calculateCartTotals_js [single_item] =
  Some \<lparr> t_subtotal = 5, t_tax = 7746191359077253 / 18014398509481984,
         t_deliveryFee = 1683220360729723 / 562949953421312, t_discount = 0,
         t_total = 2367204554136617 / 281474976710656 \<rparr>"
  by (simp add: calculateCartTotals_js_def single_item_def price_5_00 line_5_00 literals tax_5_00
        plus_tax_5_00 plus_fee_5_00 minus_discount_5_00
        round2_subtotal round2_zero round2_tax round2_fee round2_total)

lemma decimal_total_5_00: "t_total (decimalCartTotals [single_item]) = 842 / 100"
  by (simp add: decimalCartTotals_def half_up2_def single_item_def)

text \<open>The total is no whole number of hundredths: 2367204554136617 / 281474976710656 = n / 100
  would make an odd number even.\<close>

lemma not_hundredths: "real_of_int n * 70368744177664 \<noteq> 59180113853415425"
proof
  assume "real_of_int n * 70368744177664 = 59180113853415425"
  then have "real_of_int (n * 70368744177664) = real_of_int 59180113853415425" by simp
  then have "n * 70368744177664 = 59180113853415425" by (simp only: of_int_eq_iff)
  then have "(n * 70368744177664) mod 2 = 59180113853415425 mod (2::int)" by (rule arg_cong)
  then show False by simp
qed

subsection \<open>The monetary fields\<close>

text \<open>
  Claim C9 as stated fails. For a cart of one product at 5.00 the subtotal is 5, the tax
  0.425 and the delivery fee 2.99, so decimal arithmetic gives the total 8.415 and, rounded
  to two digits, 8.42. The code computes in doubles: its unrounded total lies just below
  8.415, \<open>Math.round\<close> takes it down, and the total returned is the double nearest to 8.41,
  which is not a decimal with two fractional digits and is a cent away from the decimal
  result.
\<close>

theorem calculateCartTotals_js_off_by_a_cent:
  "\<exists>t. calculateCartTotals_js [single_item] = Some t
     \<and> t_total t = 2367204554136617 / 281474976710656
     \<and> (\<forall>n. t_total t \<noteq> real_of_int n / 100)
     \<and> cents_of (t_total t) = 841
     \<and> t_total (decimalCartTotals [single_item]) = 842 / 100"
  by (simp add: totals_5_00 decimal_total_5_00 not_hundredths cents_of_def)

text \<open>
  Claim C9, amended. Whenever \<open>calculateCartTotals\<close> returns finite numbers, each of subtotal,
  tax and total whose amount is below \<open>2 ^ 52 - 1\<close> hundredths is the double nearest to a
  decimal with two fractional digits, namely to the number of hundredths nearest to it; the
  delivery fee is the double nearest to 2.99 or is 0, and the discount is 0. The fields are
  binary floating-point values computed in binary floating point, not fixed-point decimals.
\<close>

theorem calculateCartTotals_js_cents:
  assumes "calculateCartTotals_js items = Some t"
  shows "(\<bar>cents_of (t_subtotal t)\<bar> < 2 ^ 52 - 1 \<longrightarrow>
            t_subtotal t = fl (real_of_int (cents_of (t_subtotal t)) / 100))
       \<and> (\<bar>cents_of (t_tax t)\<bar> < 2 ^ 52 - 1 \<longrightarrow>
            t_tax t = fl (real_of_int (cents_of (t_tax t)) / 100))
       \<and> (\<bar>cents_of (t_total t)\<bar> < 2 ^ 52 - 1 \<longrightarrow>
            t_total t = fl (real_of_int (cents_of (t_total t)) / 100))
       \<and> (t_deliveryFee t = fl (299 / 100) \<or> t_deliveryFee t = 0)
       \<and> t_discount t = 0"
proof -
  from assms obtain subtotal tax total where
    r: "round2 subtotal = Some (t_subtotal t)" "round2 tax = Some (t_tax t)"
       "round2 (if subtotal < 25 then fl (299 / 100) else 0) = Some (t_deliveryFee t)"
       "round2 0 = Some (t_discount t)" "round2 total = Some (t_total t)"
    by (auto simp: calculateCartTotals_js_def Let_def bind_eq_Some_conv)
  have fee: "t_deliveryFee t = fl (299 / 100) \<or> t_deliveryFee t = 0"
    using r(3) by (cases "subtotal < 25") (simp_all add: literals round2_fee round2_zero)
  have "t_discount t = 0" using r(4) by (simp add: round2_zero)
  with fee round2_exact[OF r(1)] round2_exact[OF r(2)] round2_exact[OF r(5)]
  show ?thesis by blast
qed

text \<open>The cart of one product at 5.00: 500, 43 and 841 hundredths, a fee of 2.99, each
  field the double nearest to its decimal.\<close>

theorem calculateCartTotals_js_cents_witness:
  "\<exists>t. calculateCartTotals_js [single_item] = Some t
     \<and> cents_of (t_subtotal t) = 500 \<and> t_subtotal t = fl (500 / 100)
     \<and> cents_of (t_tax t) = 43 \<and> t_tax t = fl (43 / 100)
     \<and> cents_of (t_total t) = 841 \<and> t_total t = fl (841 / 100)
     \<and> t_deliveryFee t = fl (299 / 100) \<and> t_discount t = 0"
proof -
  let ?t = "\<lparr> t_subtotal = 5, t_tax = 7746191359077253 / 18014398509481984,
         t_deliveryFee = 1683220360729723 / 562949953421312, t_discount = 0,
         t_total = 2367204554136617 / 281474976710656 \<rparr> :: real cart_totals"
  have c: "cents_of (t_subtotal ?t) = 500" "cents_of (t_tax ?t) = 43" "cents_of (t_total ?t) = 841"
    by (simp_all add: cents_of_def)
  from calculateCartTotals_js_cents[OF totals_5_00] c
  have "t_subtotal ?t = fl (500 / 100) \<and> t_tax ?t = fl (43 / 100) \<and> t_total ?t = fl (841 / 100)"
    by simp
  moreover have "t_deliveryFee ?t = fl (299 / 100)" by (simp add: literals)
  ultimately show ?thesis using totals_5_00 c by simp
qed

end
